theory Spec2Isabelle
  imports Complex_Main "HOL-Library.Log_Nat"
begin

unbundle bit_operations_syntax

section \<open>Values, exceptions and the external device library\<close>

text \<open>
  Python values that cross the boundary to the device library (JSON requests and replies).
  The type parameter \<open>'f\<close> stands for Python's \<open>float\<close>: floating-point arithmetic is
  not interpreted here, every operation on floats that the code performs is taken from a
  record of operations (\<open>float_ops\<close>, below).
\<close>

datatype 'f pyval =
    PNone
  | PBool bool
  | PInt int
  | PFloat 'f
  | PStr string
  | PList "'f pyval list"
  | PDict "(string \<times> 'f pyval) list"

text \<open>
  The exceptions that the code can raise. \<open>AirConditionException\<close> is the subclass of
  \<open>DeviceException\<close> declared in \<^verbatim>\<open>climate.py\<close>; \<open>NameError\<close> carries the name
  that was looked up and not found.
\<close>

datatype error =
    DeviceException
  | AirConditionException
  | NameError string
  | ValueError
  | TypeError
  | KeyError
  | AttributeError
  | OverflowError

text \<open>\<^verbatim>\<open>except DeviceException\<close> catches the class and its subclass.\<close>

fun isinstance_DeviceException :: "error \<Rightarrow> bool" where
  "isinstance_DeviceException DeviceException = True"
| "isinstance_DeviceException AirConditionException = True"
| "isinstance_DeviceException _ = False"

text \<open>
  The device library (\<^verbatim>\<open>miio.device.Device\<close>) is external. A device is the log of the
  requests handed to \<^verbatim>\<open>Device.send\<close>, oldest first, together with an arbitrary
  deterministic behaviour: what the library answers to a request after a given history,
  either a result or a \<^verbatim>\<open>DeviceException\<close>.
\<close>

datatype 'f reply = Reply "'f pyval" | Raise

type_synonym 'f request = "string \<times> 'f pyval"

record 'f device =
  requests :: "'f request list"
  behaviour :: "'f request list \<Rightarrow> 'f request \<Rightarrow> 'f reply"

type_synonym ('f, 'a) outcome = "(error + 'a) \<times> 'f device"

definition send :: "'f device \<Rightarrow> string \<Rightarrow> 'f pyval \<Rightarrow> ('f, 'f pyval) outcome" where
  "send dev cmd params =
     (let dev' = dev\<lparr>requests := requests dev @ [(cmd, params)]\<rparr> in
      case behaviour dev (requests dev) (cmd, params) of
        Raise \<Rightarrow> (Inl DeviceException, dev')
      | Reply r \<Rightarrow> (Inr r, dev'))"

text \<open>\<^verbatim>\<open>SUCCESS = ['ok']\<close>\<close>

definition SUCCESS :: "'f pyval" where
  "SUCCESS = PList [PStr ''ok'']"

section \<open>Constants of the host platform\<close>

text \<open>
  The module imports these names from \<^verbatim>\<open>homeassistant.components.climate.const\<close> and
  \<^verbatim>\<open>homeassistant.const\<close>. They belong to the host platform, not to the repository;
  the values are the ones the host gives them: the mode strings, and one bit for each
  feature flag.
\<close>

definition HVAC_MODE_OFF :: string where "HVAC_MODE_OFF = ''off''"
definition HVAC_MODE_HEAT :: string where "HVAC_MODE_HEAT = ''heat''"
definition HVAC_MODE_COOL :: string where "HVAC_MODE_COOL = ''cool''"
definition HVAC_MODE_DRY :: string where "HVAC_MODE_DRY = ''dry''"
definition HVAC_MODE_FAN_ONLY :: string where "HVAC_MODE_FAN_ONLY = ''fan_only''"

definition SUPPORT_TARGET_TEMPERATURE :: int where "SUPPORT_TARGET_TEMPERATURE = 1"
definition SUPPORT_FAN_MODE :: int where "SUPPORT_FAN_MODE = 8"
definition SUPPORT_PRESET_MODE :: int where "SUPPORT_PRESET_MODE = 16"
definition SUPPORT_SWING_MODE :: int where "SUPPORT_SWING_MODE = 32"
definition SUPPORT_AUX_HEAT :: int where "SUPPORT_AUX_HEAT = 64"

definition ATTR_TEMPERATURE :: string where "ATTR_TEMPERATURE = ''temperature''"
definition ATTR_HVAC_MODE :: string where "ATTR_HVAC_MODE = ''hvac_mode''"

section \<open>Module constants and enumerations of \<^verbatim>\<open>ac_m1.py\<close>\<close>

text \<open>The preset flag is commented out in the source and is not part of the disjunction.\<close>

definition SUPPORT_FLAGS :: int where
  "SUPPORT_FLAGS =
     SUPPORT_TARGET_TEMPERATURE OR SUPPORT_FAN_MODE OR SUPPORT_AUX_HEAT OR SUPPORT_SWING_MODE"

definition ATTR_SWING_MODE :: string where "ATTR_SWING_MODE = ''swing_mode''"
definition ATTR_FAN_MODE :: string where "ATTR_FAN_MODE = ''fan_mode''"

text \<open>
  An \<^verbatim>\<open>enum.Enum\<close> member has a name and a value. \<open>E(v)\<close> looks a member up by value
  and raises \<^verbatim>\<open>ValueError\<close> when there is none; \<open>E[n]\<close> looks it up by name and raises
  \<^verbatim>\<open>KeyError\<close>.
\<close>

datatype HVACMode = HVAC_Off | HVAC_Cool | HVAC_Dry | HVAC_Fan_Only | HVAC_Heat

fun HVACMode_name :: "HVACMode \<Rightarrow> string" where
  "HVACMode_name HVAC_Off = ''Off''"
| "HVACMode_name HVAC_Cool = ''Cool''"
| "HVACMode_name HVAC_Dry = ''Dry''"
| "HVACMode_name HVAC_Fan_Only = ''Fan_Only''"
| "HVACMode_name HVAC_Heat = ''Heat''"

fun HVACMode_value :: "HVACMode \<Rightarrow> string" where
  "HVACMode_value HVAC_Off = HVAC_MODE_OFF"
| "HVACMode_value HVAC_Cool = HVAC_MODE_COOL"
| "HVACMode_value HVAC_Dry = HVAC_MODE_DRY"
| "HVACMode_value HVAC_Fan_Only = HVAC_MODE_FAN_ONLY"
| "HVACMode_value HVAC_Heat = HVAC_MODE_HEAT"

definition HVACMode_members :: "HVACMode list" where
  "HVACMode_members = [HVAC_Off, HVAC_Cool, HVAC_Dry, HVAC_Fan_Only, HVAC_Heat]"

datatype OperationMode = Op_Cool | Op_Dry | Op_Fan_Only | Op_Heat

fun OperationMode_name :: "OperationMode \<Rightarrow> string" where
  "OperationMode_name Op_Cool = ''Cool''"
| "OperationMode_name Op_Dry = ''Dry''"
| "OperationMode_name Op_Fan_Only = ''Fan_Only''"
| "OperationMode_name Op_Heat = ''Heat''"

fun OperationMode_value :: "OperationMode \<Rightarrow> string" where
  "OperationMode_value Op_Cool = ''cooling''"
| "OperationMode_value Op_Dry = ''arefaction''"
| "OperationMode_value Op_Fan_Only = ''wind''"
| "OperationMode_value Op_Heat = HVAC_MODE_HEAT"

definition OperationMode_members :: "OperationMode list" where
  "OperationMode_members = [Op_Cool, Op_Dry, Op_Fan_Only, Op_Heat]"

datatype FanSpeed = Level_1 | Level_2 | Level_3 | Level_4 | Level_5 | Auto

fun FanSpeed_name :: "FanSpeed \<Rightarrow> string" where
  "FanSpeed_name Level_1 = ''Level_1''"
| "FanSpeed_name Level_2 = ''Level_2''"
| "FanSpeed_name Level_3 = ''Level_3''"
| "FanSpeed_name Level_4 = ''Level_4''"
| "FanSpeed_name Level_5 = ''Level_5''"
| "FanSpeed_name Auto = ''Auto''"

fun FanSpeed_value :: "FanSpeed \<Rightarrow> int" where
  "FanSpeed_value Level_1 = 0"
| "FanSpeed_value Level_2 = 1"
| "FanSpeed_value Level_3 = 2"
| "FanSpeed_value Level_4 = 3"
| "FanSpeed_value Level_5 = 4"
| "FanSpeed_value Auto = 5"

definition FanSpeed_members :: "FanSpeed list" where
  "FanSpeed_members = [Level_1, Level_2, Level_3, Level_4, Level_5, Auto]"

datatype SwingMode = Swing_On | Swing_Off

fun SwingMode_name :: "SwingMode \<Rightarrow> string" where
  "SwingMode_name Swing_On = ''On''"
| "SwingMode_name Swing_Off = ''Off''"

fun SwingMode_value :: "SwingMode \<Rightarrow> string" where
  "SwingMode_value Swing_On = ''on''"
| "SwingMode_value Swing_Off = ''off''"

definition SwingMode_members :: "SwingMode list" where
  "SwingMode_members = [Swing_On, Swing_Off]"

text \<open>Lookup of a member by a key, in definition order; \<open>err\<close> is raised when none fits.\<close>

definition enum_lookup :: "'e list \<Rightarrow> ('e \<Rightarrow> 'k) \<Rightarrow> error \<Rightarrow> 'k \<Rightarrow> error + 'e" where
  "enum_lookup members key err k =
     (case find (\<lambda>m. key m = k) members of None \<Rightarrow> Inl err | Some m \<Rightarrow> Inr m)"

definition HVACMode_of_value :: "string \<Rightarrow> error + HVACMode" where
  "HVACMode_of_value = enum_lookup HVACMode_members HVACMode_value ValueError"

definition HVACMode_of_name :: "string \<Rightarrow> error + HVACMode" where
  "HVACMode_of_name = enum_lookup HVACMode_members HVACMode_name KeyError"

definition OperationMode_of_name :: "string \<Rightarrow> error + OperationMode" where
  "OperationMode_of_name = enum_lookup OperationMode_members OperationMode_name KeyError"

definition FanSpeed_of_name :: "string \<Rightarrow> error + FanSpeed" where
  "FanSpeed_of_name = enum_lookup FanSpeed_members FanSpeed_name KeyError"

definition SwingMode_of_name :: "string \<Rightarrow> error + SwingMode" where
  "SwingMode_of_name = enum_lookup SwingMode_members SwingMode_name KeyError"

text \<open>
  The operations on floats that the code performs: \<open>truediv10 k\<close> is \<^verbatim>\<open>k / 10\<close> for
  an integer \<open>k\<close> (\<open>None\<close> when \<open>k\<close> is too large for a float, which raises
  \<^verbatim>\<open>OverflowError\<close>), \<open>float_truediv10 x\<close> is \<^verbatim>\<open>x / 10\<close> for a float,
  \<open>int_times10 x\<close> is \<^verbatim>\<open>int(x * 10)\<close> (which raises for an infinity or a NaN), and
  \<open>float_as_int x\<close> is the integer that \<open>x\<close> is equal to, if there is one.
\<close>

record 'f float_ops =
  truediv10 :: "int \<Rightarrow> 'f option"
  float_truediv10 :: "'f \<Rightarrow> 'f"
  int_times10 :: "'f \<Rightarrow> error + int"
  float_as_int :: "'f \<Rightarrow> int option"

text \<open>
  Lookup by value of a reply field. A string is equal to no number, \<^verbatim>\<open>True\<close> and
  \<^verbatim>\<open>False\<close> are the integers 1 and 0, and a float is equal to an integer when
  \<open>float_as_int\<close> says so.
\<close>

definition OperationMode_of_value :: "'f pyval \<Rightarrow> error + OperationMode" where
  "OperationMode_of_value v =
     (case v of
        PStr s \<Rightarrow> enum_lookup OperationMode_members OperationMode_value ValueError s
      | _ \<Rightarrow> Inl ValueError)"

definition SwingMode_of_value :: "'f pyval \<Rightarrow> error + SwingMode" where
  "SwingMode_of_value v =
     (case v of
        PStr s \<Rightarrow> enum_lookup SwingMode_members SwingMode_value ValueError s
      | _ \<Rightarrow> Inl ValueError)"

definition FanSpeed_of_value :: "'f float_ops \<Rightarrow> 'f pyval \<Rightarrow> error + FanSpeed" where
  "FanSpeed_of_value F v =
     (case v of
        PInt k \<Rightarrow> enum_lookup FanSpeed_members FanSpeed_value ValueError k
      | PBool b \<Rightarrow> enum_lookup FanSpeed_members FanSpeed_value ValueError (if b then 1 else 0)
      | PFloat x \<Rightarrow>
          (case float_as_int F x of
             None \<Rightarrow> Inl ValueError
           | Some k \<Rightarrow> enum_lookup FanSpeed_members FanSpeed_value ValueError k)
      | _ \<Rightarrow> Inl ValueError)"

section \<open>\<^verbatim>\<open>AirConditionM1\<close>: the device operations\<close>

definition on :: "'f device \<Rightarrow> ('f, 'f pyval) outcome" where
  "on dev = send dev ''set_power'' (PStr ''on'')"

definition off :: "'f device \<Rightarrow> ('f, 'f pyval) outcome" where
  "off dev = send dev ''set_power'' (PStr ''off'')"

text \<open>
  \<^verbatim>\<open>t = int(temperature * 10)\<close>: the product and its truncation are the float
  operation \<open>int_times10\<close>; \<^verbatim>\<open>None * 10\<close> raises \<^verbatim>\<open>TypeError\<close>.
\<close>

definition set_temperature ::
  "'f float_ops \<Rightarrow> 'f device \<Rightarrow> 'f option \<Rightarrow> ('f, 'f pyval) outcome" where
  "set_temperature F dev temperature =
     (case temperature of
        None \<Rightarrow> (Inl TypeError, dev)
      | Some x \<Rightarrow>
          (case int_times10 F x of
             Inl e \<Rightarrow> (Inl e, dev)
           | Inr t \<Rightarrow> send dev ''set_temperature'' (PList [PInt t])))"

definition turn_aux_heat_on :: "'f device \<Rightarrow> ('f, 'f pyval) outcome" where
  "turn_aux_heat_on dev =
     (case send dev ''set_ptc'' (PStr ''on'') of
        (Inl e, dev') \<Rightarrow> (Inl e, dev')
      | (Inr _, dev') \<Rightarrow> (Inr PNone, dev'))"

definition turn_aux_heat_off :: "'f device \<Rightarrow> ('f, 'f pyval) outcome" where
  "turn_aux_heat_off dev =
     (case send dev ''set_ptc'' (PStr ''off'') of
        (Inl e, dev') \<Rightarrow> (Inl e, dev')
      | (Inr _, dev') \<Rightarrow> (Inr PNone, dev'))"

text \<open>
  \<^verbatim>\<open>ac_m1.py\<close> neither defines nor imports the name \<^verbatim>\<open>AirConditionException\<close> (the
  class is declared in \<^verbatim>\<open>climate.py\<close>, which imports \<^verbatim>\<open>ac_m1\<close>, not the other way
  round). Evaluating the \<^verbatim>\<open>raise\<close> statement therefore fails on the lookup of the name,
  with \<^verbatim>\<open>NameError\<close>.
\<close>

definition set_wind_level :: "'f device \<Rightarrow> int \<Rightarrow> ('f, 'f pyval) outcome" where
  "set_wind_level dev wind_level =
     (if wind_level < 0 \<or> wind_level > 7
      then (Inl (NameError ''AirConditionException''), dev)
      else send dev ''set_spd_level'' (PList [PInt wind_level]))"

definition set_swing :: "'f device \<Rightarrow> bool \<Rightarrow> ('f, 'f pyval) outcome" where
  "set_swing dev swing =
     (if swing then send dev ''set_vertical'' (PStr ''on'')
      else send dev ''set_vertical'' (PStr ''off''))"

definition set_dry :: "'f device \<Rightarrow> bool \<Rightarrow> ('f, 'f pyval) outcome" where
  "set_dry dev dry =
     (if dry then send dev ''set_dry'' (PStr ''on'')
      else send dev ''set_dry'' (PStr ''off''))"

definition set_sleep :: "'f device \<Rightarrow> bool \<Rightarrow> ('f, 'f pyval) outcome" where
  "set_sleep dev sleep =
     (if sleep then send dev ''set_silent'' (PStr ''on'')
      else send dev ''set_silent'' (PStr ''off''))"

definition set_mode :: "'f device \<Rightarrow> OperationMode \<Rightarrow> ('f, 'f pyval) outcome" where
  "set_mode dev mode = send dev ''set_mode'' (PStr (OperationMode_value mode))"

text \<open>
  \<^verbatim>\<open>ac_m1.py\<close> binds neither \<^verbatim>\<open>PRESET_COMFORT\<close> nor \<^verbatim>\<open>PRESET_SLEEP\<close>, and no file
  of the repository defines them. The two bindings are parameters of the model:
  \<open>None\<close> is an unbound name, whose lookup raises \<^verbatim>\<open>NameError\<close> when the comparison
  that mentions it is evaluated.
\<close>

definition set_preset_mode ::
  "string option \<Rightarrow> string option \<Rightarrow> 'f device \<Rightarrow> string \<Rightarrow> ('f, 'f pyval) outcome" where
  "set_preset_mode PRESET_COMFORT PRESET_SLEEP dev presetmode =
     (case PRESET_COMFORT of
        None \<Rightarrow> (Inl (NameError ''PRESET_COMFORT''), dev)
      | Some comfort \<Rightarrow>
          if presetmode = comfort then
            (case send dev ''set_comfort'' (PStr ''on'') of
               (Inl e, dev') \<Rightarrow> (Inl e, dev')
             | (Inr _, dev') \<Rightarrow> (Inr PNone, dev'))
          else
            (case PRESET_SLEEP of
               None \<Rightarrow> (Inl (NameError ''PRESET_SLEEP''), dev)
             | Some sleep \<Rightarrow>
                 if presetmode = sleep then
                   (case send dev ''set_silence'' (PStr ''on'') of
                      (Inl e, dev') \<Rightarrow> (Inl e, dev')
                    | (Inr _, dev') \<Rightarrow> (Inr PNone, dev'))
                 else
                   (case send dev ''set_comfort'' (PStr ''off'') of
                      (Inl e, dev') \<Rightarrow> (Inl e, dev')
                    | (Inr _, dev') \<Rightarrow>
                        (case send dev' ''set_silence'' (PStr ''off'') of
                           (Inl e, dev'') \<Rightarrow> (Inl e, dev'')
                         | (Inr _, dev'') \<Rightarrow> (Inr PNone, dev'')))))"

text \<open>The bindings as the module has them.\<close>

definition module_PRESET_COMFORT :: "string option" where
  "module_PRESET_COMFORT = None"

definition module_PRESET_SLEEP :: "string option" where
  "module_PRESET_SLEEP = None"

subsection \<open>\<^verbatim>\<open>status\<close>\<close>

definition properties :: "string list" where
  "properties = [''power'', ''mode'', ''st_temp_dec'', ''temp_dec'', ''vertical_swing'',
     ''speed_level'', ''ptc'', ''silence'', ''comfort'']"

text \<open>
  \<^verbatim>\<open>values.extend(r)\<close> iterates over \<open>r\<close>: a list gives its elements, a string its
  characters, a dict its keys (in insertion order, the keys being distinct); anything
  else is not iterable.
\<close>

fun py_iter :: "'f pyval \<Rightarrow> error + 'f pyval list" where
  "py_iter (PList xs) = Inr xs"
| "py_iter (PStr s) = Inr (map (\<lambda>c. PStr [c]) s)"
| "py_iter (PDict kvs) = Inr (map (\<lambda>kv. PStr (fst kv)) kvs)"
| "py_iter _ = Inl TypeError"

text \<open>
  The loop \<^verbatim>\<open>while _props: values.extend(self.send("get_prop", _props[:1])); _props[:] = _props[1:]\<close>.
\<close>

fun status_loop :: "'f device \<Rightarrow> string list \<Rightarrow> 'f pyval list \<Rightarrow> ('f, 'f pyval list) outcome" where
  "status_loop dev [] vals = (Inr vals, dev)"
| "status_loop dev (p # props) vals =
     (case send dev ''get_prop'' (PList [PStr p]) of
        (Inl e, dev') \<Rightarrow> (Inl e, dev')
      | (Inr r, dev') \<Rightarrow>
          (case py_iter r of
             Inl e \<Rightarrow> (Inl e, dev')
           | Inr xs \<Rightarrow> status_loop dev' props (vals @ xs)))"

text \<open>
  \<^verbatim>\<open>AirConditionStatus(defaultdict(lambda: None, zip(properties, values)))\<close>: the report
  holds the pairs of the zip, and a key without a pair reads as \<^verbatim>\<open>None\<close>.
\<close>

datatype 'f AirConditionStatus = AirConditionStatus (data: "(string \<times> 'f pyval) list")

definition status :: "'f device \<Rightarrow> ('f, 'f AirConditionStatus) outcome" where
  "status dev =
     (case status_loop dev properties [] of
        (Inl e, dev') \<Rightarrow> (Inl e, dev')
      | (Inr vals, dev') \<Rightarrow> (Inr (AirConditionStatus (zip properties vals)), dev'))"

definition data_get :: "'f AirConditionStatus \<Rightarrow> string \<Rightarrow> 'f pyval" where
  "data_get st k = (case map_of (data st) k of None \<Rightarrow> PNone | Some v \<Rightarrow> v)"

section \<open>\<^verbatim>\<open>AirConditionStatus\<close>: the properties of a report\<close>

definition power :: "'f AirConditionStatus \<Rightarrow> 'f pyval" where
  "power st = data_get st ''power''"

definition is_on :: "'f AirConditionStatus \<Rightarrow> bool" where
  "is_on st = (power st = PStr ''on'')"

text \<open>
  \<^verbatim>\<open>try: return OperationMode(self.data['mode']) except TypeError: return None\<close>.
  The lookup by value raises \<^verbatim>\<open>ValueError\<close>, which the handler does not catch.
\<close>

definition mode :: "'f AirConditionStatus \<Rightarrow> error + OperationMode option" where
  "mode st =
     (case OperationMode_of_value (data_get st ''mode'') of
        Inl e \<Rightarrow> if e = TypeError then Inr None else Inl e
      | Inr m \<Rightarrow> Inr (Some m))"

text \<open>\<^verbatim>\<open>v / 10\<close> on a reply field: defined on numbers, \<^verbatim>\<open>TypeError\<close> otherwise.\<close>

definition int_truediv10 :: "'f float_ops \<Rightarrow> int \<Rightarrow> error + 'f" where
  "int_truediv10 F k = (case truediv10 F k of None \<Rightarrow> Inl OverflowError | Some x \<Rightarrow> Inr x)"

definition py_truediv10 :: "'f float_ops \<Rightarrow> 'f pyval \<Rightarrow> error + 'f" where
  "py_truediv10 F v =
     (case v of
        PInt k \<Rightarrow> int_truediv10 F k
      | PBool b \<Rightarrow> int_truediv10 F (if b then 1 else 0)
      | PFloat x \<Rightarrow> Inr (float_truediv10 F x)
      | _ \<Rightarrow> Inl TypeError)"

definition target_temp :: "'f float_ops \<Rightarrow> 'f AirConditionStatus \<Rightarrow> error + 'f" where
  "target_temp F st = py_truediv10 F (data_get st ''st_temp_dec'')"

definition temperature :: "'f float_ops \<Rightarrow> 'f AirConditionStatus \<Rightarrow> error + 'f" where
  "temperature F st = py_truediv10 F (data_get st ''temp_dec'')"

definition swing :: "'f AirConditionStatus \<Rightarrow> 'f pyval" where
  "swing st = data_get st ''vertical_swing''"

definition wind_level :: "'f AirConditionStatus \<Rightarrow> 'f pyval" where
  "wind_level st = data_get st ''speed_level''"

definition is_aux_heat :: "'f AirConditionStatus \<Rightarrow> bool" where
  "is_aux_heat st = (data_get st ''ptc'' = PStr ''on'')"

section \<open>Strings: \<^verbatim>\<open>str.lower\<close> and \<^verbatim>\<open>str.title\<close>\<close>

text \<open>
  Strings are sequences of ASCII characters here: the cased characters are the 52 letters,
  and every other character is left as it is.
\<close>

definition ascii_lowercase :: string where
  "ascii_lowercase = ''abcdefghijklmnopqrstuvwxyz''"

definition ascii_uppercase :: string where
  "ascii_uppercase = ''ABCDEFGHIJKLMNOPQRSTUVWXYZ''"

definition lower_char :: "char \<Rightarrow> char" where
  "lower_char c = (case map_of (zip ascii_uppercase ascii_lowercase) c of None \<Rightarrow> c | Some d \<Rightarrow> d)"

definition upper_char :: "char \<Rightarrow> char" where
  "upper_char c = (case map_of (zip ascii_lowercase ascii_uppercase) c of None \<Rightarrow> c | Some d \<Rightarrow> d)"

definition is_cased :: "char \<Rightarrow> bool" where
  "is_cased c = (c \<in> set ascii_lowercase \<or> c \<in> set ascii_uppercase)"

definition lower :: "string \<Rightarrow> string" where
  "lower s = map lower_char s"

text \<open>
  \<^verbatim>\<open>str.title\<close>: a character that follows a cased character is lowercased, any other
  character is uppercased.
\<close>

fun title_from :: "bool \<Rightarrow> string \<Rightarrow> string" where
  "title_from previous_is_cased [] = []"
| "title_from previous_is_cased (c # cs) =
     (if previous_is_cased then lower_char c else upper_char c) # title_from (is_cased c) cs"

definition title :: "string \<Rightarrow> string" where
  "title s = title_from False s"

section \<open>\<^verbatim>\<open>XiaomiAirConditionM1\<close>: the climate entity\<close>

text \<open>
  The field \<^verbatim>\<open>_hvac_mode\<close> holds \<^verbatim>\<open>None\<close>, a string (one of the host's mode
  constants) or, after \<^verbatim>\<open>async_set_temperature\<close> was given a mode, a member of
  \<^verbatim>\<open>OperationMode\<close>. A member of a plain \<^verbatim>\<open>Enum\<close> is equal to no string.
\<close>

datatype hvac_mode_field = ModeNone | ModeStr string | ModeEnum OperationMode

text \<open>
  The fields of the entity, \<open>self_x\<close> for \<^verbatim>\<open>self._x\<close>. The device object
  \<^verbatim>\<open>self._device\<close> is the device that the operations take and return. \<^verbatim>\<open>__init__\<close>
  does not assign \<^verbatim>\<open>_fan_mode\<close> and \<^verbatim>\<open>_last_on_operation\<close>: for these two \<open>None\<close> means
  that the attribute does not exist yet.
\<close>

record 'f entity =
  self_name :: string
  self_unique_id :: string
  self_available :: bool
  self_state :: "bool option"
  self_state_attrs :: "string \<rightharpoonup> 'f pyval"
  self_aux_heat :: "bool option"
  self_max_temp :: int
  self_min_temp :: int
  self_current_temperature :: "'f option"
  self_swing_mode :: "string option"
  self_wind_level :: "'f pyval"
  self_hvac_mode :: hvac_mode_field
  self_target_temperature :: "'f option"
  self_fan_mode :: "string option"
  self_last_on_operation :: "string option"

type_synonym ('f, 'a) result = "(error + 'a) \<times> 'f entity \<times> 'f device"

text \<open>\<^verbatim>\<open>AirConditionM1(host, token)\<close>: a device object that has sent nothing yet.\<close>

definition AirConditionM1 ::
  "('f request list \<Rightarrow> 'f request \<Rightarrow> 'f reply) \<Rightarrow> 'f device" where
  "AirConditionM1 b = \<lparr>requests = [], behaviour = b\<rparr>"

definition init :: "string \<Rightarrow> string \<Rightarrow> int \<Rightarrow> int \<Rightarrow> 'f entity" where
  "init name unique_id min_temp max_temp =
     \<lparr>self_name = name,
      self_unique_id = unique_id,
      self_available = False,
      self_state = None,
      self_state_attrs =
        [ATTR_TEMPERATURE \<mapsto> PNone, ATTR_SWING_MODE \<mapsto> PNone, ATTR_HVAC_MODE \<mapsto> PNone],
      self_aux_heat = None,
      self_max_temp = max_temp,
      self_min_temp = min_temp,
      self_current_temperature = None,
      self_swing_mode = None,
      self_wind_level = PNone,
      self_hvac_mode = ModeNone,
      self_target_temperature = None,
      self_fan_mode = None,
      self_last_on_operation = None\<rparr>"

text \<open>
  \<^verbatim>\<open>_try_command(mask_error, func, *args)\<close>: \<open>func\<close> is the device operation with its
  arguments applied. Logging and \<^verbatim>\<open>schedule_update_ha_state\<close> do not touch the entity's
  fields or the device. An exception that is not a \<^verbatim>\<open>DeviceException\<close> leaves the
  function.
\<close>

definition try_command ::
  "'f entity \<Rightarrow> 'f device \<Rightarrow> ('f device \<Rightarrow> ('f, 'f pyval) outcome) \<Rightarrow> ('f, bool) result" where
  "try_command self dev func =
     (case func dev of
        (Inr r, dev') \<Rightarrow> (Inr (r = SUCCESS), self, dev')
      | (Inl exc, dev') \<Rightarrow>
          if isinstance_DeviceException exc
          then (Inr False, self\<lparr>self_available := False\<rparr>, dev')
          else (Inl exc, self, dev'))"

definition async_turn_on :: "'f entity \<Rightarrow> 'f device \<Rightarrow> ('f, unit) result" where
  "async_turn_on self dev =
     (case try_command self dev on of
        (Inl e, self', dev') \<Rightarrow> (Inl e, self', dev')
      | (Inr r, self', dev') \<Rightarrow>
          (Inr (), if r then self'\<lparr>self_state := Some True\<rparr> else self', dev'))"

definition async_turn_off :: "'f entity \<Rightarrow> 'f device \<Rightarrow> ('f, unit) result" where
  "async_turn_off self dev =
     (case try_command self dev off of
        (Inl e, self', dev') \<Rightarrow> (Inl e, self', dev')
      | (Inr r, self', dev') \<Rightarrow>
          (Inr (), if r then self'\<lparr>self_state := Some False\<rparr> else self', dev'))"

subsection \<open>\<^verbatim>\<open>async_update\<close>\<close>

text \<open>
  The statements of the \<^verbatim>\<open>try\<close> block after the report has arrived, in order. A
  statement that raises leaves the fields as the statements before it have set them.
  \<^verbatim>\<open>state.mode.name\<close> on \<^verbatim>\<open>None\<close> raises \<^verbatim>\<open>AttributeError\<close>.
\<close>

definition update_fields ::
  "'f float_ops \<Rightarrow> 'f entity \<Rightarrow> 'f AirConditionStatus \<Rightarrow> (error + unit) \<times> 'f entity" where
  "update_fields F self state =
     (let s1 = self\<lparr>self_available := True\<rparr> in
      case mode state of
        Inl e \<Rightarrow> (Inl e, s1)
      | Inr None \<Rightarrow> (Inl AttributeError, s1)
      | Inr (Some m) \<Rightarrow>
      (case HVACMode_of_name (OperationMode_name m) of
        Inl e \<Rightarrow> (Inl e, s1)
      | Inr h \<Rightarrow>
      (let s2 = s1\<lparr>self_last_on_operation := Some (HVACMode_value h)\<rparr>;
           s3 = (if power state = PStr ''off''
                 then s2\<lparr>self_hvac_mode := ModeStr HVAC_MODE_OFF, self_state := Some False\<rparr>
                 else s2\<lparr>self_hvac_mode := ModeStr (HVACMode_value h), self_state := Some True\<rparr>)
       in
      case target_temp F state of
        Inl e \<Rightarrow> (Inl e, s3)
      | Inr tt \<Rightarrow>
      (let s4 = s3\<lparr>self_target_temperature := Some tt\<rparr> in
      case temperature F state of
        Inl e \<Rightarrow> (Inl e, s4)
      | Inr ct \<Rightarrow>
      (let s5 = s4\<lparr>self_current_temperature := Some ct\<rparr> in
      case FanSpeed_of_value F (wind_level state) of
        Inl e \<Rightarrow> (Inl e, s5)
      | Inr fs \<Rightarrow>
      (let s6 = s5\<lparr>self_fan_mode := Some (FanSpeed_name fs)\<rparr>;
           s7 = s6\<lparr>self_aux_heat := Some (is_aux_heat state)\<rparr> in
      case SwingMode_of_value (swing state) of
        Inl e \<Rightarrow> (Inl e, s7)
      | Inr sw \<Rightarrow>
      (let s8 = s7\<lparr>self_swing_mode := Some (SwingMode_name sw)\<rparr> in
       (Inr (),
        s8\<lparr>self_state_attrs :=
             (self_state_attrs s8)
               (ATTR_TEMPERATURE \<mapsto> PFloat tt,
                ATTR_SWING_MODE \<mapsto> swing state,
                ATTR_FAN_MODE \<mapsto> wind_level state,
                ATTR_HVAC_MODE \<mapsto>
                  PStr (if self_state s8 = Some True then lower (OperationMode_name m)
                        else ''off''))\<rparr>))))))))"

text \<open>
  The \<^verbatim>\<open>try\<close> statement: a \<^verbatim>\<open>DeviceException\<close> from \<^verbatim>\<open>status\<close> or from the block marks
  the entity unavailable; any other exception leaves the function.
\<close>

definition async_update :: "'f float_ops \<Rightarrow> 'f entity \<Rightarrow> 'f device \<Rightarrow> ('f, unit) result" where
  "async_update F self dev =
     (case status dev of
        (Inl e, dev') \<Rightarrow>
          if isinstance_DeviceException e
          then (Inr (), self\<lparr>self_available := False\<rparr>, dev')
          else (Inl e, self, dev')
      | (Inr state, dev') \<Rightarrow>
          (case update_fields F self state of
             (Inl e, self') \<Rightarrow>
               if isinstance_DeviceException e
               then (Inr (), self'\<lparr>self_available := False\<rparr>, dev')
               else (Inl e, self', dev')
           | (Inr u, self') \<Rightarrow> (Inr (), self', dev')))"

subsection \<open>Properties read by the host\<close>

definition supported_features :: "'f entity \<Rightarrow> int" where
  "supported_features self = SUPPORT_FLAGS"

definition min_temp :: "'f entity \<Rightarrow> int" where
  "min_temp self = self_min_temp self"

definition max_temp :: "'f entity \<Rightarrow> int" where
  "max_temp self = self_max_temp self"

definition available :: "'f entity \<Rightarrow> bool" where
  "available self = self_available self"

definition current_temperature :: "'f entity \<Rightarrow> 'f option" where
  "current_temperature self = self_current_temperature self"

definition target_temperature :: "'f entity \<Rightarrow> 'f option" where
  "target_temperature self = self_target_temperature self"

definition last_on_operation :: "'f entity \<Rightarrow> error + string" where
  "last_on_operation self =
     (case self_last_on_operation self of None \<Rightarrow> Inl AttributeError | Some v \<Rightarrow> Inr v)"

definition hvac_mode :: "'f entity \<Rightarrow> hvac_mode_field" where
  "hvac_mode self = self_hvac_mode self"

definition hvac_modes :: "'f entity \<Rightarrow> string list" where
  "hvac_modes self = map HVACMode_value HVACMode_members"

definition swing_mode :: "'f entity \<Rightarrow> string option" where
  "swing_mode self = self_swing_mode self"

definition swing_modes :: "'f entity \<Rightarrow> string list" where
  "swing_modes self = map SwingMode_name SwingMode_members"

definition fan_mode :: "'f entity \<Rightarrow> error + string" where
  "fan_mode self =
     (case self_fan_mode self of None \<Rightarrow> Inl AttributeError | Some v \<Rightarrow> Inr v)"

definition fan_modes :: "'f entity \<Rightarrow> string list" where
  "fan_modes self = map FanSpeed_name FanSpeed_members"

definition preset_modes :: "'f entity \<Rightarrow> string list" where
  "preset_modes self = [''none'', ''silence'', ''comfort'']"

definition entity_is_aux_heat :: "'f entity \<Rightarrow> bool option" where
  "entity_is_aux_heat self = self_aux_heat self"

subsection \<open>Command handlers\<close>

text \<open>
  The keyword arguments that \<^verbatim>\<open>async_set_temperature\<close> reads:
  \<^verbatim>\<open>kwargs.get(ATTR_TEMPERATURE)\<close> and \<^verbatim>\<open>kwargs.get(ATTR_HVAC_MODE)\<close>, \<open>None\<close> when the
  key is absent or its value is \<^verbatim>\<open>None\<close>.
\<close>

record 'f kwargs =
  kw_temperature :: "'f option"
  kw_hvac_mode :: "string option"

definition async_set_temperature ::
  "'f float_ops \<Rightarrow> 'f entity \<Rightarrow> 'f device \<Rightarrow> 'f kwargs \<Rightarrow> ('f, unit) result" where
  "async_set_temperature F self dev kwargs =
     (if self_hvac_mode self = ModeStr HVAC_MODE_OFF
         \<or> self_hvac_mode self = ModeStr HVAC_MODE_FAN_ONLY
      then (Inr (), self, dev)
      else
        (let s1 = (case kw_temperature kwargs of
                     None \<Rightarrow> self
                   | Some t \<Rightarrow> self\<lparr>self_target_temperature := Some t\<rparr>) in
         case (case kw_hvac_mode kwargs of
                 None \<Rightarrow> Inr s1
               | Some h \<Rightarrow>
                   (case OperationMode_of_value (PStr h :: 'f pyval) of
                      Inl e \<Rightarrow> Inl e
                    | Inr m \<Rightarrow> Inr (s1\<lparr>self_hvac_mode := ModeEnum m\<rparr>))) of
           Inl e \<Rightarrow> (Inl e, s1, dev)
         | Inr s2 \<Rightarrow>
             (case try_command s2 dev
                     (\<lambda>d. set_temperature F d (self_target_temperature s2)) of
                (Inl e, self', dev') \<Rightarrow> (Inl e, self', dev')
              | (Inr r, self', dev') \<Rightarrow> (Inr (), self', dev'))))"

definition async_set_preset_mode ::
  "string option \<Rightarrow> string option \<Rightarrow> 'f entity \<Rightarrow> 'f device \<Rightarrow> string \<Rightarrow> ('f, unit) result" where
  "async_set_preset_mode PRESET_COMFORT PRESET_SLEEP self dev preset_mode =
     (case try_command self dev
             (\<lambda>d. set_preset_mode PRESET_COMFORT PRESET_SLEEP d preset_mode) of
        (Inl e, self', dev') \<Rightarrow> (Inl e, self', dev')
      | (Inr r, self', dev') \<Rightarrow> (Inr (), self', dev'))"

definition async_turn_aux_heat_on :: "'f entity \<Rightarrow> 'f device \<Rightarrow> ('f, unit) result" where
  "async_turn_aux_heat_on self dev =
     (case try_command self dev turn_aux_heat_on of
        (Inl e, self', dev') \<Rightarrow> (Inl e, self', dev')
      | (Inr r, self', dev') \<Rightarrow> (Inr (), self', dev'))"

definition async_turn_aux_heat_off :: "'f entity \<Rightarrow> 'f device \<Rightarrow> ('f, unit) result" where
  "async_turn_aux_heat_off self dev =
     (case try_command self dev turn_aux_heat_off of
        (Inl e, self', dev') \<Rightarrow> (Inl e, self', dev')
      | (Inr r, self', dev') \<Rightarrow> (Inr (), self', dev'))"

definition async_set_swing_mode ::
  "'f entity \<Rightarrow> 'f device \<Rightarrow> string \<Rightarrow> ('f, unit) result" where
  "async_set_swing_mode self dev swing_mode_arg =
     (if supported_features self AND SUPPORT_SWING_MODE = 0 then (Inr (), self, dev)
      else
        (case SwingMode_of_name (title swing_mode_arg) of
           Inl e \<Rightarrow> (Inl e, self, dev)
         | Inr sw \<Rightarrow>
             (let s1 = self\<lparr>self_swing_mode := Some (SwingMode_name sw)\<rparr> in
              case try_command s1 dev
                     (\<lambda>d. set_swing d (self_swing_mode s1 = Some (SwingMode_name Swing_On))) of
                (Inl e, self', dev') \<Rightarrow> (Inl e, self', dev')
              | (Inr r, self', dev') \<Rightarrow> (Inr (), self', dev'))))"

definition async_set_fan_mode ::
  "'f entity \<Rightarrow> 'f device \<Rightarrow> string \<Rightarrow> ('f, unit) result" where
  "async_set_fan_mode self dev fan_mode_arg =
     (if supported_features self AND SUPPORT_FAN_MODE = 0 then (Inr (), self, dev)
      else if self_hvac_mode self = ModeStr HVAC_MODE_DRY then (Inr (), self, dev)
      else
        (case FanSpeed_of_name (title fan_mode_arg) of
           Inl e \<Rightarrow> (Inl e, self, dev)
         | Inr fs \<Rightarrow>
             (let s1 = self\<lparr>self_fan_mode := Some (FanSpeed_name fs)\<rparr>;
                  fan_mode_value = FanSpeed_value fs in
              case try_command s1 dev (\<lambda>d. set_wind_level d fan_mode_value) of
                (Inl e, self', dev') \<Rightarrow> (Inl e, self', dev')
              | (Inr r, self', dev') \<Rightarrow> (Inr (), self', dev'))))"

text \<open>
  \<^verbatim>\<open>async_set_hvac_mode\<close>. In the second branch the power-on step runs only while the
  stored mode is off; \<open>powered\<close> is its result, and \<open>True\<close> when the step is skipped,
  so that \<^verbatim>\<open>if not result: return\<close> is the test on \<open>powered\<close>. The last statement,
  \<^verbatim>\<open>self.async_update()\<close>, calls a generator-based coroutine without \<^verbatim>\<open>yield from\<close>:
  the call builds the generator object and runs none of its body, so it has no effect.
\<close>

definition async_set_hvac_mode ::
  "'f entity \<Rightarrow> 'f device \<Rightarrow> string \<Rightarrow> ('f, unit) result" where
  "async_set_hvac_mode self dev hvac_mode_arg =
     (if hvac_mode_arg = HVAC_MODE_OFF then
        (case try_command self dev off of
           (Inl e, self', dev') \<Rightarrow> (Inl e, self', dev')
         | (Inr r, self', dev') \<Rightarrow>
             (Inr (),
              if r then self'\<lparr>self_state := Some False, self_hvac_mode := ModeStr HVAC_MODE_OFF\<rparr>
              else self',
              dev'))
      else
        (case (if self_hvac_mode self = ModeStr HVAC_MODE_OFF
               then try_command self dev on
               else (Inr True, self, dev)) of
           (Inl e, s1, dev1) \<Rightarrow> (Inl e, s1, dev1)
         | (Inr powered, s1, dev1) \<Rightarrow>
             if \<not> powered then (Inr (), s1, dev1)
             else
               (case HVACMode_of_value hvac_mode_arg of
                  Inl e \<Rightarrow> (Inl e, s1, dev1)
                | Inr h \<Rightarrow>
                    (let s2 = s1\<lparr>self_hvac_mode := ModeStr (HVACMode_value h)\<rparr>;
                         s3 = s2\<lparr>self_state := Some True\<rparr> in
                     case OperationMode_of_name (title (HVACMode_value h)) of
                       Inl e \<Rightarrow> (Inl e, s3, dev1)
                     | Inr m \<Rightarrow>
                         (case try_command s3 dev1 (\<lambda>d. set_mode d m) of
                            (Inl e, self', dev') \<Rightarrow> (Inl e, self', dev')
                          | (Inr r, self', dev') \<Rightarrow> (Inr (), self', dev'))))))"

section \<open>Python floats: IEEE-754 double precision\<close>

text \<open>
  Python's \<^verbatim>\<open>float\<close> is the IEEE-754 binary64 format. A finite double is modelled by the
  rational number it denotes (the two zeros are one value; no operation of the code tells
  them apart), and every arithmetic operation is the exact operation followed by rounding
  to the nearest double, ties to the even significand. Infinities and NaN are not values
  of the model: the code can produce one only by overflow, and then raises.

  \<open>binade x\<close> is the exponent \<open>e\<close> with \<open>2\<^sup>e \<le> |x| < 2\<^sup>e\<^sup>+\<^sup>1\<close>, computed from the bit lengths
  of numerator and denominator. The doubles around \<open>x\<close> are the multiples of \<open>ulp x\<close>:
  53 significant bits, and exponent at least \<open>-1074\<close> (the subnormal range).
\<close>

definition binade :: "rat \<Rightarrow> int" where
  "binade x =
     (let (p, q) = quotient_of \<bar>x\<bar>; d = bitlen p - bitlen q
      in if 2 powi d \<le> \<bar>x\<bar> then d else d - 1)"

definition ulp :: "rat \<Rightarrow> rat" where
  "ulp x = 2 powi (max (binade x - 52) (- 1074))"

text \<open>Rounding to the nearest integer, a tie going to the even one.\<close>

definition rne :: "rat \<Rightarrow> int" where
  "rne y =
     (let f = \<lfloor>y\<rfloor>; r = y - of_int f
      in if r < 1 / 2 then f else if 1 / 2 < r then f + 1 else if even f then f else f + 1)"

definition nearest_double :: "rat \<Rightarrow> rat" where
  "nearest_double x =
     (if x = 0 then 0
      else if x < 0 then - (of_int (rne (- x / ulp x)) * ulp x)
      else of_int (rne (x / ulp x)) * ulp x)"

text \<open>A rounded result of magnitude \<open>2\<^sup>1\<^sup>0\<^sup>2\<^sup>4\<close> or more is beyond the largest double.\<close>

definition overflows :: "rat \<Rightarrow> bool" where
  "overflows y = (2 ^ 1024 \<le> \<bar>y\<bar>)"

text \<open>\<^verbatim>\<open>int(x)\<close> on a float truncates towards zero.\<close>

definition trunc :: "rat \<Rightarrow> int" where
  "trunc x = (if 0 \<le> x then \<lfloor>x\<rfloor> else \<lceil>x\<rceil>)"

text \<open>
  The float operations of Python. \<^verbatim>\<open>k / 10\<close> on an integer is correctly rounded and
  raises \<^verbatim>\<open>OverflowError\<close> when the quotient is too large for a float; \<^verbatim>\<open>x * 10\<close>
  overflows to an infinity, on which \<^verbatim>\<open>int\<close> raises \<^verbatim>\<open>OverflowError\<close>.
\<close>

definition ieee_double :: "rat float_ops" where
  "ieee_double =
     \<lparr>truediv10 =
        (\<lambda>k. let y = nearest_double (of_int k / 10) in if overflows y then None else Some y),
      float_truediv10 = (\<lambda>x. nearest_double (x / 10)),
      int_times10 =
        (\<lambda>x. let y = nearest_double (x * 10)
             in if overflows y then Inl OverflowError else Inr (trunc y)),
      float_as_int = (\<lambda>x. if of_int \<lfloor>x\<rfloor> = x then Some \<lfloor>x\<rfloor> else None)\<rparr>"

section \<open>Example devices and entities\<close>

text \<open>
  Concrete inputs on which the operations are evaluated. The float operations of the
  examples are exact arithmetic on rationals, with \<^verbatim>\<open>int\<close> truncating towards zero.
\<close>

definition exact_ops :: "rat float_ops" where
  "exact_ops =
     \<lparr>truediv10 = (\<lambda>k. Some (of_int k / 10)),
      float_truediv10 = (\<lambda>x. x / 10),
      int_times10 = (\<lambda>x. Inr (if 0 \<le> x then \<lfloor>x * 10\<rfloor> else \<lceil>x * 10\<rceil>)),
      float_as_int = (\<lambda>x. if of_int \<lfloor>x\<rfloor> = x then Some \<lfloor>x\<rfloor> else None)\<rparr>"

text \<open>A device that answers \<^verbatim>\<open>['ok']\<close> to every request.\<close>

definition accepting :: "'f request list \<Rightarrow> 'f request \<Rightarrow> 'f reply" where
  "accepting history request = Reply SUCCESS"

text \<open>A device that cannot be reached: every request raises \<^verbatim>\<open>DeviceException\<close>.\<close>

definition unreachable :: "'f request list \<Rightarrow> 'f request \<Rightarrow> 'f reply" where
  "unreachable history request = Raise"

text \<open>A device that answers \<^verbatim>\<open>['error']\<close> to every request.\<close>

definition refusing :: "'f request list \<Rightarrow> 'f request \<Rightarrow> 'f reply" where
  "refusing history request = Reply (PList [PStr ''error''])"

text \<open>
  A device that answers a \<^verbatim>\<open>get_prop\<close> request for one property with the one-element
  list of that property's value in \<open>report\<close>, and \<^verbatim>\<open>['ok']\<close> to every other request.
\<close>

fun reporting :: "(string \<times> 'f pyval) list \<Rightarrow> 'f request list \<Rightarrow> 'f request \<Rightarrow> 'f reply" where
  "reporting report history (cmd, params) =
     (if cmd = ''get_prop'' then
        (case params of
           PList [PStr p] \<Rightarrow>
             (case map_of report p of None \<Rightarrow> Reply (PList [PNone]) | Some v \<Rightarrow> Reply (PList [v]))
         | _ \<Rightarrow> Raise)
      else Reply SUCCESS)"

definition report_cool :: "(string \<times> rat pyval) list" where
  "report_cool =
     [(''power'', PStr ''on''), (''mode'', PStr ''cooling''), (''st_temp_dec'', PInt 220),
      (''temp_dec'', PInt 200), (''vertical_swing'', PStr ''on''), (''speed_level'', PInt 0),
      (''ptc'', PStr ''off''), (''silence'', PStr ''off''), (''comfort'', PStr ''off'')]"

definition report_dry :: "(string \<times> rat pyval) list" where
  "report_dry =
     [(''power'', PStr ''on''), (''mode'', PStr ''arefaction''), (''st_temp_dec'', PInt 220),
      (''temp_dec'', PInt 200), (''vertical_swing'', PStr ''on''), (''speed_level'', PInt 0),
      (''ptc'', PStr ''off''), (''silence'', PStr ''off''), (''comfort'', PStr ''off'')]"

text \<open>
  The report of the docstring of \<^verbatim>\<open>AirConditionStatus.__init__\<close>, whose mode is the
  number 2, with the power off.
\<close>

definition report_docstring_off :: "(string \<times> rat pyval) list" where
  "report_docstring_off =
     [(''power'', PStr ''off''), (''mode'', PInt 2), (''st_temp_dec'', PInt 220),
      (''temp_dec'', PInt 200), (''vertical_swing'', PStr ''on''), (''speed_level'', PInt 0),
      (''ptc'', PStr ''off''), (''silence'', PStr ''off''), (''comfort'', PStr ''off'')]"

definition new_entity :: "rat entity" where
  "new_entity = init ''ac'' ''zhimi.aircondition.ma4-00'' 16 30"

definition report_off :: "(string \<times> rat pyval) list" where
  "report_off =
     [(''power'', PStr ''off''), (''mode'', PStr ''cooling''), (''st_temp_dec'', PInt 220),
      (''temp_dec'', PInt 200), (''vertical_swing'', PStr ''off''), (''speed_level'', PInt 5),
      (''ptc'', PStr ''off''), (''silence'', PStr ''off''), (''comfort'', PStr ''off'')]"

text \<open>The entity after its first poll of a device that reports \<open>report\<close>.\<close>

definition polled :: "(string \<times> rat pyval) list \<Rightarrow> rat entity" where
  "polled report = fst (snd (async_update exact_ops new_entity (AirConditionM1 (reporting report))))"

section \<open>Properties of \<^verbatim>\<open>_try_command\<close>\<close>

lemma try_command_Inr:
  "func dev = (Inr r, dev') \<Longrightarrow> try_command self dev func = (Inr (r = SUCCESS), self, dev')"
  by (simp add: try_command_def)

lemma try_command_Inl:
  "func dev = (Inl exc, dev') \<Longrightarrow>
   try_command self dev func =
     (if isinstance_DeviceException exc
      then (Inr False, self\<lparr>self_available := False\<rparr>, dev')
      else (Inl exc, self, dev'))"
  by (simp add: try_command_def)

text \<open>
  Claim C10. \<^verbatim>\<open>_try_command\<close> returns \<^verbatim>\<open>True\<close> exactly when the wrapped device call
  completes with the result \<^verbatim>\<open>['ok']\<close>. When the call raises \<^verbatim>\<open>DeviceException\<close>, the
  exception is not passed on: the result is \<^verbatim>\<open>False\<close> and the entity is marked
  unavailable. When the call completes with any other result, the result is \<^verbatim>\<open>False\<close>
  and the entity, its availability included, is unchanged.
\<close>

theorem try_command_returns:
  "(fst (try_command self dev func) = Inr True \<longleftrightarrow> fst (func dev) = Inr SUCCESS)
   \<and> (fst (func dev) = Inl DeviceException \<longrightarrow>
        try_command self dev func = (Inr False, self\<lparr>self_available := False\<rparr>, snd (func dev)))
   \<and> (\<forall>r. fst (func dev) = Inr r \<and> r \<noteq> SUCCESS \<longrightarrow>
        try_command self dev func = (Inr False, self, snd (func dev)))"
proof (cases "func dev")
  case (Pair out dev')
  show ?thesis
  proof (cases out)
    case (Inl exc)
    with Pair show ?thesis by (simp add: try_command_Inl)
  next
    case (Inr r)
    with Pair show ?thesis by (auto simp add: try_command_Inr)
  qed
qed

theorem try_command_returns_witness:
  "fst (on (AirConditionM1 accepting :: rat device)) = Inr SUCCESS
   \<and> fst (try_command new_entity (AirConditionM1 accepting) on) = Inr True
   \<and> fst (on (AirConditionM1 unreachable :: rat device)) = Inl DeviceException
   \<and> try_command new_entity (AirConditionM1 unreachable) on =
       (Inr False, new_entity\<lparr>self_available := False\<rparr>, snd (on (AirConditionM1 unreachable)))
   \<and> fst (on (AirConditionM1 refusing :: rat device)) = Inr (PList [PStr ''error''])
   \<and> PList [PStr ''error''] \<noteq> (SUCCESS :: rat pyval)
   \<and> try_command new_entity (AirConditionM1 refusing) on =
       (Inr False, new_entity, snd (on (AirConditionM1 refusing)))"
  using try_command_returns [of new_entity "AirConditionM1 accepting" on]
    try_command_returns [of new_entity "AirConditionM1 unreachable" on]
    try_command_returns [of new_entity "AirConditionM1 refusing" on]
  by (simp add: on_def send_def AirConditionM1_def accepting_def unreachable_def refusing_def
      SUCCESS_def)

section \<open>Properties of the device operations\<close>

lemma set_wind_level_in_range:
  "0 \<le> w \<Longrightarrow> w \<le> 7 \<Longrightarrow>
   set_wind_level dev w = send dev ''set_spd_level'' (PList [PInt w])"
  by (simp add: set_wind_level_def)

text \<open>
  Claim C8. A wind level outside 0..7 makes \<^verbatim>\<open>set_wind_level\<close> raise without sending
  anything, but what it raises, at the levels 8 and -1, is \<^verbatim>\<open>NameError\<close>: the name
  \<^verbatim>\<open>AirConditionException\<close> is not bound in \<^verbatim>\<open>ac_m1.py\<close>.
\<close>

theorem set_wind_level_out_of_range:
  "set_wind_level dev 8 = (Inl (NameError ''AirConditionException''), dev)
   \<and> set_wind_level dev (- 1) = (Inl (NameError ''AirConditionException''), dev)"
  by (simp add: set_wind_level_def)

section \<open>Shared facts\<close>

lemmas mode_constants = HVAC_MODE_OFF_def HVAC_MODE_HEAT_def HVAC_MODE_COOL_def
  HVAC_MODE_DRY_def HVAC_MODE_FAN_ONLY_def

lemmas flag_constants = SUPPORT_FLAGS_def SUPPORT_TARGET_TEMPERATURE_def SUPPORT_FAN_MODE_def
  SUPPORT_PRESET_MODE_def SUPPORT_SWING_MODE_def SUPPORT_AUX_HEAT_def

lemmas string_case_defs = lower_char_def upper_char_def is_cased_def ascii_lowercase_def
  ascii_uppercase_def title_def lower_def

lemmas enum_defs = enum_lookup_def HVACMode_members_def OperationMode_members_def
  FanSpeed_members_def SwingMode_members_def HVACMode_of_value_def HVACMode_of_name_def
  OperationMode_of_name_def OperationMode_of_value_def FanSpeed_of_name_def
  FanSpeed_of_value_def SwingMode_of_name_def SwingMode_of_value_def

lemma send_requests [simp]:
  "requests (snd (send dev cmd params)) = requests dev @ [(cmd, params)]"
  by (simp add: send_def Let_def split: reply.splits)

lemma send_behaviour [simp]:
  "behaviour (snd (send dev cmd params)) = behaviour dev"
  by (simp add: send_def Let_def split: reply.splits)

lemma send_result:
  "fst (send dev cmd params) =
     (case behaviour dev (requests dev) (cmd, params) of
        Raise \<Rightarrow> Inl DeviceException | Reply r \<Rightarrow> Inr r)"
  by (simp add: send_def Let_def split: reply.splits)

section \<open>Mode-dependent handlers\<close>

text \<open>
  Claim C2. While the stored hvac mode is the string \<^verbatim>\<open>HVAC_MODE_DRY\<close>,
  \<^verbatim>\<open>async_set_fan_mode\<close> returns at once, whatever fan mode it is given: no request
  reaches the device and no field of the entity changes, the stored fan mode included.
\<close>

theorem async_set_fan_mode_in_dry_mode:
  "self_hvac_mode self = ModeStr HVAC_MODE_DRY \<Longrightarrow>
   async_set_fan_mode self dev fan_mode_arg = (Inr (), self, dev)"
  by (simp add: async_set_fan_mode_def)

theorem async_set_fan_mode_in_dry_mode_witness:
  "self_hvac_mode (new_entity\<lparr>self_hvac_mode := ModeStr HVAC_MODE_DRY\<rparr>) = ModeStr HVAC_MODE_DRY
   \<and> async_set_fan_mode (new_entity\<lparr>self_hvac_mode := ModeStr HVAC_MODE_DRY\<rparr>)
        (AirConditionM1 accepting) ''auto'' =
      (Inr (), new_entity\<lparr>self_hvac_mode := ModeStr HVAC_MODE_DRY\<rparr>, AirConditionM1 accepting)"
  using async_set_fan_mode_in_dry_mode
    [of "new_entity\<lparr>self_hvac_mode := ModeStr HVAC_MODE_DRY\<rparr>" "AirConditionM1 accepting" "''auto''"]
  by simp

text \<open>
  Claim C9. While the stored hvac mode is \<^verbatim>\<open>HVAC_MODE_OFF\<close> or
  \<^verbatim>\<open>HVAC_MODE_FAN_ONLY\<close>, \<^verbatim>\<open>async_set_temperature\<close> returns at once: no request
  reaches the device and no field of the entity changes, the target temperature and the
  hvac mode included.
\<close>

theorem async_set_temperature_when_off_or_fan_only:
  "self_hvac_mode self = ModeStr HVAC_MODE_OFF \<or> self_hvac_mode self = ModeStr HVAC_MODE_FAN_ONLY \<Longrightarrow>
   async_set_temperature F self dev kwargs = (Inr (), self, dev)"
  by (auto simp add: async_set_temperature_def)

theorem async_set_temperature_when_off_or_fan_only_witness:
  "self_hvac_mode (new_entity\<lparr>self_hvac_mode := ModeStr HVAC_MODE_FAN_ONLY\<rparr>) = ModeStr HVAC_MODE_FAN_ONLY
   \<and> async_set_temperature exact_ops (new_entity\<lparr>self_hvac_mode := ModeStr HVAC_MODE_FAN_ONLY\<rparr>)
        (AirConditionM1 accepting) \<lparr>kw_temperature = Some 25, kw_hvac_mode = None\<rparr> =
      (Inr (), new_entity\<lparr>self_hvac_mode := ModeStr HVAC_MODE_FAN_ONLY\<rparr>, AirConditionM1 accepting)
   \<and> self_hvac_mode (new_entity\<lparr>self_hvac_mode := ModeStr HVAC_MODE_OFF\<rparr>) = ModeStr HVAC_MODE_OFF
   \<and> async_set_temperature exact_ops (new_entity\<lparr>self_hvac_mode := ModeStr HVAC_MODE_OFF\<rparr>)
        (AirConditionM1 accepting) \<lparr>kw_temperature = Some 25, kw_hvac_mode = None\<rparr> =
      (Inr (), new_entity\<lparr>self_hvac_mode := ModeStr HVAC_MODE_OFF\<rparr>, AirConditionM1 accepting)"
  using async_set_temperature_when_off_or_fan_only
    [of "new_entity\<lparr>self_hvac_mode := ModeStr HVAC_MODE_FAN_ONLY\<rparr>" exact_ops
        "AirConditionM1 accepting" "\<lparr>kw_temperature = Some 25, kw_hvac_mode = None\<rparr>"]
    async_set_temperature_when_off_or_fan_only
    [of "new_entity\<lparr>self_hvac_mode := ModeStr HVAC_MODE_OFF\<rparr>" exact_ops
        "AirConditionM1 accepting" "\<lparr>kw_temperature = Some 25, kw_hvac_mode = None\<rparr>"]
  by simp

lemma try_command_on_requests:
  "requests (snd (snd (try_command self dev on))) = requests dev @ [(''set_power'', PStr ''on'')]"
  by (simp add: try_command_def on_def send_def Let_def split: reply.splits)

lemma try_command_on_hvac_mode:
  "self_hvac_mode (fst (snd (try_command self dev on))) = self_hvac_mode self"
  by (simp add: try_command_def on_def send_def Let_def split: reply.splits)

lemma try_command_on_result:
  "fst (try_command self dev on) =
     Inr (behaviour dev (requests dev) (''set_power'', PStr ''on'') = Reply SUCCESS)"
  by (simp add: try_command_def on_def send_def Let_def split: reply.splits)

lemma try_command_set_mode_requests:
  "requests (snd (snd (try_command self dev (\<lambda>d. set_mode d m)))) =
     requests dev @ [(''set_mode'', PStr (OperationMode_value m))]"
  by (simp add: try_command_def set_mode_def send_def Let_def split: reply.splits)

text \<open>
  Claim C1. When \<^verbatim>\<open>async_set_hvac_mode\<close> is given a mode other than off while the stored
  hvac mode is off, the first request of the call is \<^verbatim>\<open>set_power on\<close>, and at most one
  request follows it, a \<^verbatim>\<open>set_mode\<close>. When the power-on request fails (the library
  raises, or answers anything but \<^verbatim>\<open>['ok']\<close>), nothing follows it and the stored hvac
  mode stays as it was.
\<close>

theorem async_set_hvac_mode_powers_on_first:
  assumes "hvac_mode_arg \<noteq> HVAC_MODE_OFF"
    and "self_hvac_mode self = ModeStr HVAC_MODE_OFF"
  shows "\<exists>rest.
     requests (snd (snd (async_set_hvac_mode self dev hvac_mode_arg))) =
       requests dev @ (''set_power'', PStr ''on'') # rest
     \<and> (rest = [] \<or> (\<exists>m. rest = [(''set_mode'', PStr (OperationMode_value m))]))
     \<and> (behaviour dev (requests dev) (''set_power'', PStr ''on'') \<noteq> Reply SUCCESS \<longrightarrow>
          rest = []
          \<and> self_hvac_mode (fst (snd (async_set_hvac_mode self dev hvac_mode_arg))) =
              self_hvac_mode self)"
proof -
  obtain r s1 dev1 where tc: "try_command self dev on = (r, s1, dev1)"
    by (cases "try_command self dev on") auto
  have req1: "requests dev1 = requests dev @ [(''set_power'', PStr ''on'')]"
    using try_command_on_requests [of self dev] tc by simp
  have mode1: "self_hvac_mode s1 = self_hvac_mode self"
    using try_command_on_hvac_mode [of self dev] tc by simp
  have res1: "r = Inr (behaviour dev (requests dev) (''set_power'', PStr ''on'') = Reply SUCCESS)"
    using try_command_on_result [of self dev] tc by simp
  show ?thesis
  proof (cases "behaviour dev (requests dev) (''set_power'', PStr ''on'') = Reply SUCCESS")
    case False
    with assms tc req1 mode1 res1 show ?thesis
      by (simp add: async_set_hvac_mode_def)
  next
    case True
    show ?thesis
    proof (cases "HVACMode_of_value hvac_mode_arg")
      case (Inl e)
      with True assms tc req1 res1 show ?thesis
        by (simp add: async_set_hvac_mode_def)
    next
      case (Inr h)
      show ?thesis
      proof (cases "OperationMode_of_name (title (HVACMode_value h))")
        case (Inl e)
        with True Inr assms tc req1 res1 show ?thesis
          by (simp add: async_set_hvac_mode_def Let_def)
      next
        case opm: (Inr m)
        let ?s3 = "s1\<lparr>self_hvac_mode := ModeStr (HVACMode_value h), self_state := Some True\<rparr>"
        obtain r2 s4 dev2 where tc2:
          "try_command ?s3 dev1 (\<lambda>d. set_mode d m) = (r2, s4, dev2)"
          by (cases "try_command ?s3 dev1 (\<lambda>d. set_mode d m)") auto
        have req2: "requests dev2 = requests dev1 @ [(''set_mode'', PStr (OperationMode_value m))]"
          using try_command_set_mode_requests [of ?s3 dev1 m] tc2 by simp
        have "requests (snd (snd (async_set_hvac_mode self dev hvac_mode_arg))) = requests dev2"
          using True Inr opm assms tc res1 tc2
          by (simp add: async_set_hvac_mode_def Let_def split: sum.splits)
        with req1 req2 True show ?thesis by auto
      qed
    qed
  qed
qed

theorem async_set_hvac_mode_powers_on_first_witness:
  "''cool'' \<noteq> HVAC_MODE_OFF
   \<and> self_hvac_mode (new_entity\<lparr>self_hvac_mode := ModeStr HVAC_MODE_OFF\<rparr>) = ModeStr HVAC_MODE_OFF
   \<and> behaviour (AirConditionM1 unreachable :: rat device) (requests (AirConditionM1 unreachable :: rat device))
        (''set_power'', PStr ''on'') \<noteq> Reply SUCCESS
   \<and> requests (snd (snd (async_set_hvac_mode (new_entity\<lparr>self_hvac_mode := ModeStr HVAC_MODE_OFF\<rparr>)
        (AirConditionM1 unreachable) ''cool''))) = [(''set_power'', PStr ''on'')]
   \<and> self_hvac_mode (fst (snd (async_set_hvac_mode (new_entity\<lparr>self_hvac_mode := ModeStr HVAC_MODE_OFF\<rparr>)
        (AirConditionM1 unreachable) ''cool''))) = ModeStr HVAC_MODE_OFF
   \<and> requests (snd (snd (async_set_hvac_mode (new_entity\<lparr>self_hvac_mode := ModeStr HVAC_MODE_OFF\<rparr>)
        (AirConditionM1 accepting) ''cool''))) =
       [(''set_power'', PStr ''on''), (''set_mode'', PStr ''cooling'')]"
  using async_set_hvac_mode_powers_on_first
    [of "''cool''" "new_entity\<lparr>self_hvac_mode := ModeStr HVAC_MODE_OFF\<rparr>" "AirConditionM1 unreachable"]
    async_set_hvac_mode_powers_on_first
    [of "''cool''" "new_entity\<lparr>self_hvac_mode := ModeStr HVAC_MODE_OFF\<rparr>" "AirConditionM1 accepting"]
  by (simp add: async_set_hvac_mode_def try_command_def on_def set_mode_def send_def
      AirConditionM1_def unreachable_def accepting_def SUCCESS_def mode_constants enum_defs
      string_case_defs Let_def)

section \<open>Requests sent by the device operations\<close>

lemma status_loop_requests:
  "status_loop dev props vals = (Inr vs, dev') \<Longrightarrow>
   requests dev' = requests dev @ map (\<lambda>p. (''get_prop'', PList [PStr p])) props"
proof (induction props arbitrary: dev vals)
  case Nil
  then show ?case by simp
next
  case (Cons p props)
  obtain out dev1 where s: "send dev ''get_prop'' (PList [PStr p]) = (out, dev1)"
    by (cases "send dev ''get_prop'' (PList [PStr p])") auto
  then have r1: "requests dev1 = requests dev @ [(''get_prop'', PList [PStr p])]"
    using send_requests [of dev "''get_prop''" "PList [PStr p]"] by simp
  from Cons.prems s obtain r xs where "out = Inr r" and "py_iter r = Inr xs"
    and rec: "status_loop dev1 props (vals @ xs) = (Inr vs, dev')"
    by (auto split: sum.splits)
  from Cons.IH [OF rec] r1 show ?case by simp
qed

lemma status_requests:
  "fst (status dev) = Inr st \<Longrightarrow>
   requests (snd (status dev)) =
     requests dev @ map (\<lambda>p. (''get_prop'', PList [PStr p])) properties"
proof -
  assume a: "fst (status dev) = Inr st"
  obtain out dev' where l: "status_loop dev properties [] = (out, dev')"
    by (cases "status_loop dev properties []") auto
  with a obtain vs where "out = Inr vs"
    by (auto simp add: status_def split: sum.splits)
  with l have "requests dev' = requests dev @ map (\<lambda>p. (''get_prop'', PList [PStr p])) properties"
    using status_loop_requests by blast
  moreover from l \<open>out = Inr vs\<close> have "snd (status dev) = dev'"
    by (simp add: status_def)
  ultimately show ?thesis by simp
qed

lemma aux_heat_requests:
  "requests (snd (turn_aux_heat_on dev)) = requests dev @ [(''set_ptc'', PStr ''on'')]"
  "requests (snd (turn_aux_heat_off dev)) = requests dev @ [(''set_ptc'', PStr ''off'')]"
  by (simp_all add: turn_aux_heat_on_def turn_aux_heat_off_def send_def Let_def
      split: reply.splits)

text \<open>
  Claim C3, as amended. Each command operation of \<^verbatim>\<open>AirConditionM1\<close> hands exactly one
  request to the device library: \<^verbatim>\<open>on\<close>, \<^verbatim>\<open>off\<close>, \<^verbatim>\<open>set_mode\<close>, \<^verbatim>\<open>set_swing\<close>,
  \<^verbatim>\<open>set_dry\<close>, \<^verbatim>\<open>set_sleep\<close>, \<^verbatim>\<open>turn_aux_heat_on\<close>, \<^verbatim>\<open>turn_aux_heat_off\<close>, and
  \<^verbatim>\<open>set_temperature\<close> and \<^verbatim>\<open>set_wind_level\<close> on an argument they accept. A
  \<^verbatim>\<open>status\<close> refresh does not: it sends one \<^verbatim>\<open>get_prop\<close> request for each of the nine
  properties, in order, when it completes.
\<close>

theorem device_operations_requests:
  "requests (snd (on dev)) = requests dev @ [(''set_power'', PStr ''on'')]
   \<and> requests (snd (off dev)) = requests dev @ [(''set_power'', PStr ''off'')]
   \<and> requests (snd (set_mode dev m)) = requests dev @ [(''set_mode'', PStr (OperationMode_value m))]
   \<and> requests (snd (set_swing dev b)) =
       requests dev @ [(''set_vertical'', PStr (if b then ''on'' else ''off''))]
   \<and> requests (snd (set_dry dev b)) =
       requests dev @ [(''set_dry'', PStr (if b then ''on'' else ''off''))]
   \<and> requests (snd (set_sleep dev b)) =
       requests dev @ [(''set_silent'', PStr (if b then ''on'' else ''off''))]
   \<and> requests (snd (turn_aux_heat_on dev)) = requests dev @ [(''set_ptc'', PStr ''on'')]
   \<and> requests (snd (turn_aux_heat_off dev)) = requests dev @ [(''set_ptc'', PStr ''off'')]
   \<and> (int_times10 F x = Inr t \<longrightarrow>
        requests (snd (set_temperature F dev (Some x))) =
          requests dev @ [(''set_temperature'', PList [PInt t])])
   \<and> (0 \<le> w \<and> w \<le> 7 \<longrightarrow>
        requests (snd (set_wind_level dev w)) = requests dev @ [(''set_spd_level'', PList [PInt w])])
   \<and> (fst (status dev) = Inr st \<longrightarrow>
        requests (snd (status dev)) =
          requests dev @ map (\<lambda>p. (''get_prop'', PList [PStr p])) properties
        \<and> length properties = 9)"
  by (simp add: on_def off_def set_mode_def set_swing_def set_dry_def set_sleep_def
      aux_heat_requests set_temperature_def set_wind_level_def status_requests)
    (simp add: properties_def)

theorem device_operations_requests_witness:
  "int_times10 exact_ops (45 / 2) = Inr 225
   \<and> (0::int) \<le> 5 \<and> (5::int) \<le> 7
   \<and> fst (status (AirConditionM1 (reporting report_cool))) = Inr (AirConditionStatus report_cool)
   \<and> requests (snd (set_temperature exact_ops (AirConditionM1 (reporting report_cool)) (Some (45 / 2)))) =
       [(''set_temperature'', PList [PInt 225])]
   \<and> requests (snd (set_wind_level (AirConditionM1 (reporting report_cool)) 5)) =
       [(''set_spd_level'', PList [PInt 5])]
   \<and> requests (snd (status (AirConditionM1 (reporting report_cool)))) =
       map (\<lambda>p. (''get_prop'', PList [PStr p])) properties
   \<and> length properties = 9"
  using device_operations_requests
    [of "AirConditionM1 (reporting report_cool)" _ _ exact_ops "45 / 2" 225 5
        "AirConditionStatus report_cool"]
  by (simp add: exact_ops_def status_def properties_def send_def AirConditionM1_def
      report_cool_def)

text \<open>
  Claim C3 as stated fails: one \<^verbatim>\<open>status\<close> refresh of a device that answers every
  request sends nine \<^verbatim>\<open>get_prop\<close> requests, not one.
\<close>

theorem status_sends_nine_requests:
  "map fst (requests (snd (status (AirConditionM1 (reporting report_cool))))) =
     [''get_prop'', ''get_prop'', ''get_prop'', ''get_prop'', ''get_prop'', ''get_prop'',
      ''get_prop'', ''get_prop'', ''get_prop'']"
  by (simp add: status_def properties_def send_def AirConditionM1_def report_cool_def)

section \<open>Polling: \<^verbatim>\<open>async_update\<close>\<close>

lemma OperationMode_of_value_value:
  "OperationMode_of_value (PStr (OperationMode_value m)) = Inr m"
  by (cases m) (simp_all add: enum_defs mode_constants)

lemma HVACMode_of_name_OperationMode:
  "HVACMode_of_name (OperationMode_name m) =
     Inr (case m of Op_Cool \<Rightarrow> HVAC_Cool | Op_Dry \<Rightarrow> HVAC_Dry
          | Op_Fan_Only \<Rightarrow> HVAC_Fan_Only | Op_Heat \<Rightarrow> HVAC_Heat)"
  by (cases m) (simp_all add: enum_defs)

lemma update_fields_recognised_mode:
  assumes "data_get st ''mode'' = PStr (OperationMode_value m)"
    and "HVACMode_of_name (OperationMode_name m) = Inr h"
  shows "self_hvac_mode (snd (update_fields F self st)) =
           ModeStr (if power st = PStr ''off'' then HVAC_MODE_OFF else HVACMode_value h)"
    and "self_state (snd (update_fields F self st)) = Some (power st \<noteq> PStr ''off'')"
proof -
  have m: "mode st = Inr (Some m)"
    using assms(1) by (simp add: mode_def OperationMode_of_value_value)
  show "self_hvac_mode (snd (update_fields F self st)) =
           ModeStr (if power st = PStr ''off'' then HVAC_MODE_OFF else HVACMode_value h)"
    using m assms(2) by (simp add: update_fields_def Let_def split: sum.splits)
  show "self_state (snd (update_fields F self st)) = Some (power st \<noteq> PStr ''off'')"
    using m assms(2) by (simp add: update_fields_def Let_def split: sum.splits)
qed

lemma enum_lookup_error: "enum_lookup ms key err k = Inl e \<Longrightarrow> e = err"
  by (simp add: enum_lookup_def split: option.splits)

lemma OperationMode_of_value_error: "OperationMode_of_value v = Inl e \<Longrightarrow> e = ValueError"
  by (cases v) (auto simp add: OperationMode_of_value_def dest: enum_lookup_error)

lemma mode_error: "mode st = Inl e \<Longrightarrow> e = ValueError"
  by (auto simp add: mode_def split: sum.splits if_splits dest: OperationMode_of_value_error)

lemma HVACMode_of_name_error: "HVACMode_of_name n = Inl e \<Longrightarrow> e = KeyError"
  by (auto simp add: HVACMode_of_name_def dest: enum_lookup_error)

lemma py_truediv10_error:
  "py_truediv10 F v = Inl e \<Longrightarrow> e = TypeError \<or> e = OverflowError"
  by (cases v) (auto simp add: py_truediv10_def int_truediv10_def split: option.splits)

lemma FanSpeed_of_value_error: "FanSpeed_of_value F v = Inl e \<Longrightarrow> e = ValueError"
  by (cases v) (auto simp add: FanSpeed_of_value_def split: option.splits dest: enum_lookup_error)

lemma SwingMode_of_value_error: "SwingMode_of_value v = Inl e \<Longrightarrow> e = ValueError"
  by (cases v) (auto simp add: SwingMode_of_value_def dest: enum_lookup_error)


lemma update_fields_no_DeviceException:
  "fst (update_fields F self st) = Inl e \<Longrightarrow> \<not> isinstance_DeviceException e"
  by (auto simp add: update_fields_def Let_def target_temp_def temperature_def
      split: sum.splits option.splits
      dest!: mode_error HVACMode_of_name_error py_truediv10_error FanSpeed_of_value_error
        SwingMode_of_value_error)

lemma update_fields_Inr:
  assumes "update_fields F self st = (Inr (), self1)"
  shows "\<exists>m h tt ct fs sw.
     mode st = Inr (Some m) \<and> HVACMode_of_name (OperationMode_name m) = Inr h
     \<and> target_temp F st = Inr tt \<and> temperature F st = Inr ct
     \<and> FanSpeed_of_value F (wind_level st) = Inr fs \<and> SwingMode_of_value (swing st) = Inr sw
     \<and> self_hvac_mode self1 =
         ModeStr (if power st = PStr ''off'' then HVAC_MODE_OFF else HVACMode_value h)
     \<and> self_state self1 = Some (power st \<noteq> PStr ''off'')
     \<and> self_available self1
     \<and> self_last_on_operation self1 = Some (HVACMode_value h)
     \<and> self_target_temperature self1 = Some tt
     \<and> self_current_temperature self1 = Some ct
     \<and> self_fan_mode self1 = Some (FanSpeed_name fs)
     \<and> self_aux_heat self1 = Some (is_aux_heat st)
     \<and> self_swing_mode self1 = Some (SwingMode_name sw)"
  using assms
  by (auto simp add: update_fields_def Let_def split: sum.splits option.splits)

lemma async_update_Inr:
  assumes "async_update F self dev = (Inr (), self1, dev1)"
    and "fst (status dev) = Inr st"
  shows "update_fields F self st = (Inr (), self1)"
proof -
  obtain dev' where s: "status dev = (Inr st, dev')"
    using assms(2) by (cases "status dev") auto
  obtain out self' where u: "update_fields F self st = (out, self')"
    by (cases "update_fields F self st") auto
  show ?thesis
  proof (cases out)
    case (Inl e)
    with u have "\<not> isinstance_DeviceException e"
      using update_fields_no_DeviceException [of F self st e] by simp
    with Inl u s assms(1) show ?thesis by (simp add: async_update_def)
  next
    case (Inr x)
    with u s assms(1) show ?thesis by (simp add: async_update_def)
  qed
qed


lemmas example_eval = async_update_def status_def properties_def send_def AirConditionM1_def
  update_fields_def mode_def data_get_def power_def target_temp_def temperature_def
  py_truediv10_def int_truediv10_def wind_level_def swing_def is_aux_heat_def exact_ops_def
  new_entity_def
  init_def enum_defs mode_constants Let_def

text \<open>
  For a report whose mode is one of the four values of \<^verbatim>\<open>OperationMode\<close>, the poll
  stores the hvac mode and the state flag as the report has them, also when a later
  statement of the block raises.
\<close>

lemma async_update_recognised_mode:
  assumes "fst (status dev) = Inr st"
    and "data_get st ''mode'' = PStr (OperationMode_value m)"
    and "HVACMode_of_name (OperationMode_name m) = Inr h"
  shows "self_hvac_mode (fst (snd (async_update F self dev))) =
           ModeStr (if power st = PStr ''off'' then HVAC_MODE_OFF else HVACMode_value h)
         \<and> self_state (fst (snd (async_update F self dev))) = Some (power st \<noteq> PStr ''off'')"
proof -
  obtain dev' where s: "status dev = (Inr st, dev')"
    using assms(1) by (cases "status dev") auto
  obtain out self' where u: "update_fields F self st = (out, self')"
    by (cases "update_fields F self st") auto
  have f: "self_hvac_mode self' =
             ModeStr (if power st = PStr ''off'' then HVAC_MODE_OFF else HVACMode_value h)"
      "self_state self' = Some (power st \<noteq> PStr ''off'')"
    using update_fields_recognised_mode [OF assms(2,3), of F self] u by simp_all
  show ?thesis
  proof (cases out)
    case (Inl e)
    with u have "\<not> isinstance_DeviceException e"
      using update_fields_no_DeviceException [of F self st e] by simp
    with Inl u s f show ?thesis by (simp add: async_update_def)
  next
    case (Inr x)
    with u s f show ?thesis by (simp add: async_update_def)
  qed
qed

text \<open>
  Claim C4. A poll should store \<^verbatim>\<open>off\<close> as the hvac mode whenever the reported power
  is \<^verbatim>\<open>"off"\<close>, for every mode value that the device reports. On the report of the
  class docstring, whose mode is the number 2, with the power off, the poll raises
  \<^verbatim>\<open>ValueError\<close> instead (the \<^verbatim>\<open>mode\<close> property catches \<^verbatim>\<open>TypeError\<close> only), and the
  hvac mode and the state flag keep their initial value \<^verbatim>\<open>None\<close>.
\<close>

theorem async_update_unrecognised_mode:
  "fst (async_update exact_ops new_entity (AirConditionM1 (reporting report_docstring_off))) =
     Inl ValueError
   \<and> self_hvac_mode (fst (snd (async_update exact_ops new_entity
        (AirConditionM1 (reporting report_docstring_off))))) = ModeNone
   \<and> self_state (fst (snd (async_update exact_ops new_entity
        (AirConditionM1 (reporting report_docstring_off))))) = None"
  by (simp add: example_eval report_docstring_off_def)

section \<open>State kept between operations\<close>

text \<open>
  Claim C7, as amended. The entity keeps the device state of its last completed poll in
  its fields. The host-facing properties read these fields and contact no device: target
  and current temperature are the report's, the auxiliary-heat flag is the report's, and
  the hvac mode is off exactly when the report's power was \<^verbatim>\<open>"off"\<close>. The command
  handlers branch on the stored hvac mode, whatever the device is like when they run:
  after a poll that reported power off, \<^verbatim>\<open>async_set_temperature\<close> sends nothing, and
  after a poll that reported the dry mode with power on, \<^verbatim>\<open>async_set_fan_mode\<close> sends
  nothing.
\<close>

theorem entity_retains_polled_state:
  assumes "async_update F self dev = (Inr (), self1, dev1)"
    and "fst (status dev) = Inr st"
  shows "map_option Inr (target_temperature self1) = Some (target_temp F st)
     \<and> map_option Inr (current_temperature self1) = Some (temperature F st)
     \<and> entity_is_aux_heat self1 = Some (is_aux_heat st)
     \<and> (hvac_mode self1 = ModeStr HVAC_MODE_OFF) = (power st = PStr ''off'')
     \<and> (power st = PStr ''off'' \<longrightarrow>
          async_set_temperature F self1 later_dev kwargs = (Inr (), self1, later_dev))
     \<and> (power st \<noteq> PStr ''off'' \<and> data_get st ''mode'' = PStr ''arefaction'' \<longrightarrow>
          async_set_fan_mode self1 later_dev fan_mode_arg = (Inr (), self1, later_dev))"
proof -
  from async_update_Inr [OF assms] have "update_fields F self st = (Inr (), self1)" .
  from update_fields_Inr [OF this] obtain m h tt ct where
    m: "mode st = Inr (Some m)" and h: "HVACMode_of_name (OperationMode_name m) = Inr h"
    and tt: "target_temp F st = Inr tt" and ct: "temperature F st = Inr ct"
    and hm: "self_hvac_mode self1 =
         ModeStr (if power st = PStr ''off'' then HVAC_MODE_OFF else HVACMode_value h)"
    and t1: "self_target_temperature self1 = Some tt"
    and t2: "self_current_temperature self1 = Some ct"
    and ah: "self_aux_heat self1 = Some (is_aux_heat st)"
    by blast
  have h_eq: "h = (case m of Op_Cool \<Rightarrow> HVAC_Cool | Op_Dry \<Rightarrow> HVAC_Dry
      | Op_Fan_Only \<Rightarrow> HVAC_Fan_Only | Op_Heat \<Rightarrow> HVAC_Heat)"
    using h by (simp add: HVACMode_of_name_OperationMode)
  have not_off: "HVACMode_value h \<noteq> HVAC_MODE_OFF"
    unfolding h_eq by (cases m) (simp_all add: mode_constants)
  have dry: "data_get st ''mode'' = PStr ''arefaction'' \<Longrightarrow> HVACMode_value h = HVAC_MODE_DRY"
  proof -
    assume "data_get st ''mode'' = PStr ''arefaction''"
    then have "mode st = Inr (Some Op_Dry)"
      by (simp add: mode_def enum_defs)
    with m have "m = Op_Dry" by simp
    with h_eq show ?thesis by simp
  qed
  show ?thesis
    using tt ct t1 t2 ah hm not_off dry
    by (simp add: target_temperature_def current_temperature_def entity_is_aux_heat_def
        hvac_mode_def async_set_temperature_def async_set_fan_mode_def)
qed


theorem entity_retains_polled_state_witness:
  "async_update exact_ops new_entity (AirConditionM1 (reporting report_dry)) =
     (Inr (), polled report_dry,
      snd (snd (async_update exact_ops new_entity (AirConditionM1 (reporting report_dry)))))
   \<and> fst (status (AirConditionM1 (reporting report_dry))) = Inr (AirConditionStatus report_dry)
   \<and> power (AirConditionStatus report_dry) \<noteq> PStr ''off''
   \<and> data_get (AirConditionStatus report_dry) ''mode'' = PStr ''arefaction''
   \<and> target_temperature (polled report_dry) = Some 22
   \<and> hvac_mode (polled report_dry) \<noteq> ModeStr HVAC_MODE_OFF
   \<and> async_set_fan_mode (polled report_dry) (AirConditionM1 accepting) ''auto'' =
       (Inr (), polled report_dry, AirConditionM1 accepting)
   \<and> async_update exact_ops new_entity (AirConditionM1 (reporting report_off)) =
     (Inr (), polled report_off,
      snd (snd (async_update exact_ops new_entity (AirConditionM1 (reporting report_off)))))
   \<and> fst (status (AirConditionM1 (reporting report_off))) = Inr (AirConditionStatus report_off)
   \<and> power (AirConditionStatus report_off) = PStr ''off''
   \<and> hvac_mode (polled report_off) = ModeStr HVAC_MODE_OFF
   \<and> async_set_temperature exact_ops (polled report_off) (AirConditionM1 accepting)
        \<lparr>kw_temperature = Some 25, kw_hvac_mode = None\<rparr> =
       (Inr (), polled report_off, AirConditionM1 accepting)"
proof -
  let ?dry = "AirConditionM1 (reporting report_dry) :: rat device"
  let ?off = "AirConditionM1 (reporting report_off) :: rat device"
  let ?kw = "\<lparr>kw_temperature = Some (25 :: rat), kw_hvac_mode = None\<rparr>"
  have d1: "fst (async_update exact_ops new_entity ?dry) = Inr ()"
    by (simp add: example_eval report_dry_def)
  have d2: "fst (status ?dry) = Inr (AirConditionStatus report_dry)"
    by (simp add: status_def properties_def send_def AirConditionM1_def report_dry_def)
  have d3: "power (AirConditionStatus report_dry) \<noteq> PStr ''off''"
    "data_get (AirConditionStatus report_dry) ''mode'' = PStr ''arefaction''"
    "target_temp exact_ops (AirConditionStatus report_dry) = Inr 22"
    by (simp_all add: power_def data_get_def target_temp_def py_truediv10_def int_truediv10_def
        exact_ops_def report_dry_def)
  have d4: "async_update exact_ops new_entity ?dry =
      (Inr (), polled report_dry, snd (snd (async_update exact_ops new_entity ?dry)))"
    using d1 by (simp add: polled_def prod_eq_iff)
  have o1: "fst (async_update exact_ops new_entity ?off) = Inr ()"
    by (simp add: example_eval report_off_def)
  have o2: "fst (status ?off) = Inr (AirConditionStatus report_off)"
    by (simp add: status_def properties_def send_def AirConditionM1_def report_off_def)
  have o3: "power (AirConditionStatus report_off) = PStr ''off''"
    by (simp add: power_def data_get_def report_off_def)
  have o4: "async_update exact_ops new_entity ?off =
      (Inr (), polled report_off, snd (snd (async_update exact_ops new_entity ?off)))"
    using o1 by (simp add: polled_def prod_eq_iff)
  note dry = entity_retains_polled_state
      [where later_dev = "AirConditionM1 accepting" and kwargs = ?kw and fan_mode_arg = "''auto''",
       OF d4 d2]
  note off = entity_retains_polled_state
      [where later_dev = "AirConditionM1 accepting" and kwargs = ?kw and fan_mode_arg = "''auto''",
       OF o4 o2]
  from dry d3 have "target_temperature (polled report_dry) = Some 22"
    by auto
  with dry off d2 d3 d4 o2 o3 o4 show ?thesis
    by simp
qed

text \<open>
  Claim C7 as stated fails: the hvac mode read from the entity is the one its last poll
  stored, and the same \<^verbatim>\<open>async_set_fan_mode\<close> call on the same device sends nothing
  after a poll that reported the dry mode and one request after a poll that reported
  cooling.
\<close>

theorem handler_depends_on_polled_mode:
  "hvac_mode (polled report_dry) = ModeStr ''dry''
   \<and> requests (snd (snd (async_set_fan_mode (polled report_dry) (AirConditionM1 accepting) ''auto''))) = []
   \<and> hvac_mode (polled report_cool) = ModeStr ''cool''
   \<and> requests (snd (snd (async_set_fan_mode (polled report_cool) (AirConditionM1 accepting) ''auto''))) =
       [(''set_spd_level'', PList [PInt 5])]"
proof -
  have dry: "self_hvac_mode (polled report_dry) = ModeStr ''dry''"
    by (simp add: polled_def example_eval report_dry_def)
  have cool: "self_hvac_mode (polled report_cool) = ModeStr ''cool''"
    by (simp add: polled_def example_eval report_cool_def)
  have name: "FanSpeed_of_name (title ''auto'') = Inr Auto"
    by (simp add: enum_defs string_case_defs)
  have "requests (snd (snd (async_set_fan_mode (polled report_dry) (AirConditionM1 accepting) ''auto''))) = []"
    using dry by (simp add: async_set_fan_mode_def mode_constants AirConditionM1_def)
  moreover have "requests (snd (snd (async_set_fan_mode (polled report_cool) (AirConditionM1 accepting) ''auto''))) =
       [(''set_spd_level'', PList [PInt 5])]"
    using cool name
    by (simp add: async_set_fan_mode_def supported_features_def flag_constants mode_constants
        try_command_def set_wind_level_def send_def AirConditionM1_def accepting_def Let_def)
  ultimately show ?thesis
    using dry cool by (simp add: hvac_mode_def)
qed

section \<open>Presets\<close>

text \<open>
  With the module's own bindings, \<^verbatim>\<open>set_preset_mode\<close> fails on the first comparison,
  before anything is sent. With the host's values for the two names (\<^verbatim>\<open>"comfort"\<close> and
  \<^verbatim>\<open>"sleep"\<close>), the preset \<^verbatim>\<open>"silence"\<close> of \<^verbatim>\<open>preset_modes\<close> is neither of them and
  switches both features off.
\<close>

lemma set_preset_mode_unbound_names:
  "set_preset_mode module_PRESET_COMFORT module_PRESET_SLEEP dev presetmode =
     (Inl (NameError ''PRESET_COMFORT''), dev)"
  by (simp add: set_preset_mode_def module_PRESET_COMFORT_def)

lemma async_set_preset_mode_unbound_names:
  "async_set_preset_mode module_PRESET_COMFORT module_PRESET_SLEEP self dev preset_mode_arg =
     (Inl (NameError ''PRESET_COMFORT''), self, dev)"
  by (simp add: async_set_preset_mode_def try_command_def set_preset_mode_unbound_names)

lemma set_preset_mode_silence:
  "requests (snd (set_preset_mode (Some ''comfort'') (Some ''sleep'')
      (AirConditionM1 accepting :: rat device) ''silence'')) =
     [(''set_comfort'', PStr ''off''), (''set_silence'', PStr ''off'')]"
  by (simp add: set_preset_mode_def send_def AirConditionM1_def accepting_def)

text \<open>
  Claim C6, as amended. \<^verbatim>\<open>supported_features\<close> does not advertise preset support: the
  advertised features are target temperature, fan mode, auxiliary heat and swing mode,
  and the preset flag is not among them. \<^verbatim>\<open>preset_modes\<close> lists \<^verbatim>\<open>none\<close>,
  \<^verbatim>\<open>silence\<close> and \<^verbatim>\<open>comfort\<close> all the same.
\<close>

theorem preset_modes_without_feature_flag:
  "supported_features self =
     SUPPORT_TARGET_TEMPERATURE OR SUPPORT_FAN_MODE OR SUPPORT_AUX_HEAT OR SUPPORT_SWING_MODE
   \<and> supported_features self AND SUPPORT_PRESET_MODE = 0
   \<and> preset_modes self = [''none'', ''silence'', ''comfort'']"
  by (simp add: supported_features_def flag_constants preset_modes_def)

text \<open>
  Claim C6 as stated fails: the features that the entity advertises do not contain the
  preset flag.
\<close>

theorem preset_mode_not_advertised:
  "supported_features new_entity AND SUPPORT_PRESET_MODE = 0"
  by (simp add: supported_features_def flag_constants)

section \<open>Temperature conversion\<close>

text \<open>
  Facts about rounding: \<open>rne\<close> is within one half of its argument, and returns an
  integer that is nearer than one half, or exactly one half away and even.
\<close>

lemma int_le_from_rat: "(of_int a :: rat) < of_int b + 1 \<Longrightarrow> a \<le> b"
proof -
  assume "(of_int a :: rat) < of_int b + 1"
  then have "(of_int a :: rat) < of_int (b + 1)" by simp
  then have "a < b + 1" by (simp only: of_int_less_iff)
  then show ?thesis by simp
qed

lemma floor_bounds: "of_int \<lfloor>y\<rfloor> \<le> (y::rat) \<and> y < of_int \<lfloor>y\<rfloor> + 1"
  by linarith

lemma rne_cases:
  "(rne y = \<lfloor>y\<rfloor> \<and> y - of_int \<lfloor>y\<rfloor> \<le> 1 / 2 \<and> (y - of_int \<lfloor>y\<rfloor> = 1 / 2 \<longrightarrow> even \<lfloor>y\<rfloor>))
   \<or> (rne y = \<lfloor>y\<rfloor> + 1 \<and> 1 / 2 \<le> y - of_int \<lfloor>y\<rfloor> \<and> (y - of_int \<lfloor>y\<rfloor> = 1 / 2 \<longrightarrow> odd \<lfloor>y\<rfloor>))"
  unfolding rne_def Let_def by auto

lemma rne_error: "\<bar>of_int (rne y) - y\<bar> \<le> 1 / 2"
  using rne_cases [of y] floor_bounds [of y] by auto

lemma rne_tie: "even K \<Longrightarrow> \<bar>y - of_int K\<bar> \<le> 1 / 2 \<Longrightarrow> rne y = K"
proof -
  assume ev: "even K" and near0: "\<bar>y - of_int K\<bar> \<le> 1 / 2"
  let ?f = "\<lfloor>y\<rfloor>"
  note fb = floor_bounds [of y]
  from near0 have "y - of_int K \<le> 1 / 2 \<and> - (y - of_int K) \<le> 1 / 2"
    by (simp only: abs_le_iff)
  then have near: "y - of_int K \<le> 1 / 2" "of_int K - y \<le> 1 / 2"
    by linarith+
  from rne_cases [of y] show ?thesis
  proof
    assume c: "rne y = ?f \<and> y - of_int ?f \<le> 1 / 2 \<and> (y - of_int ?f = 1 / 2 \<longrightarrow> even ?f)"
    have "(of_int ?f :: rat) < of_int K + 1" using fb near by linarith
    then have 1: "?f \<le> K" by (rule int_le_from_rat)
    have "(of_int K :: rat) < of_int ?f + 1 + 1" using fb near by linarith
    then have "(of_int K :: rat) < of_int (?f + 1) + 1" by simp
    then have 2: "K \<le> ?f + 1" by (rule int_le_from_rat)
    show ?thesis
    proof (cases "K = ?f + 1")
      case True
      then have "(of_int K :: rat) = of_int ?f + 1" by simp
      with c near have "y - of_int ?f = 1 / 2" by linarith
      with c have "even ?f" by simp
      with True ev show ?thesis by simp
    next
      case False
      with 1 2 c show ?thesis by simp
    qed
  next
    assume c: "rne y = ?f + 1 \<and> 1 / 2 \<le> y - of_int ?f \<and> (y - of_int ?f = 1 / 2 \<longrightarrow> odd ?f)"
    have "(of_int ?f :: rat) < of_int K + 1" using fb near by linarith
    then have 1: "?f \<le> K" by (rule int_le_from_rat)
    have "(of_int K :: rat) < of_int ?f + 1 + 1" using fb near by linarith
    then have "(of_int K :: rat) < of_int (?f + 1) + 1" by simp
    then have 2: "K \<le> ?f + 1" by (rule int_le_from_rat)
    show ?thesis
    proof (cases "K = ?f")
      case True
      with c near have "y - of_int ?f = 1 / 2" by linarith
      with c have "odd ?f" by simp
      with True ev show ?thesis by simp
    next
      case False
      with 1 2 c show ?thesis by simp
    qed
  qed
qed

lemma rne_near: "\<bar>y - of_int K\<bar> < 1 / 2 \<Longrightarrow> rne y = K"
proof -
  assume near0: "\<bar>y - of_int K\<bar> < 1 / 2"
  let ?f = "\<lfloor>y\<rfloor>"
  note fb = floor_bounds [of y]
  from near0 have "y - of_int K < 1 / 2 \<and> - (y - of_int K) < 1 / 2"
    by (simp only: abs_less_iff)
  then have near: "y - of_int K < 1 / 2" "of_int K - y < 1 / 2"
    by linarith+
  have "(of_int ?f :: rat) < of_int K + 1" using fb near by linarith
  then have 1: "?f \<le> K" by (rule int_le_from_rat)
  have "(of_int K :: rat) < of_int ?f + 1 + 1" using fb near by linarith
  then have "(of_int K :: rat) < of_int (?f + 1) + 1" by simp
  then have 2: "K \<le> ?f + 1" by (rule int_le_from_rat)
  from rne_cases [of y] show ?thesis
  proof
    assume c: "rne y = ?f \<and> y - of_int ?f \<le> 1 / 2 \<and> (y - of_int ?f = 1 / 2 \<longrightarrow> even ?f)"
    have "K \<noteq> ?f + 1"
    proof
      assume "K = ?f + 1"
      then have "(of_int K :: rat) = of_int ?f + 1" by simp
      with c near show False by linarith
    qed
    with 1 2 c show ?thesis by simp
  next
    assume c: "rne y = ?f + 1 \<and> 1 / 2 \<le> y - of_int ?f \<and> (y - of_int ?f = 1 / 2 \<longrightarrow> odd ?f)"
    have "K \<noteq> ?f"
    proof
      assume "K = ?f"
      with c near show False by linarith
    qed
    with 1 2 c show ?thesis by simp
  qed
qed

lemma rne_of_int: "rne (of_int K) = K"
  by (rule rne_near) simp

lemma rne_ge: "of_int K \<le> y \<Longrightarrow> K \<le> rne y"
proof -
  assume "of_int K \<le> y"
  then have "K \<le> \<lfloor>y\<rfloor>" by (simp add: le_floor_iff)
  with rne_cases [of y] show ?thesis by auto
qed

lemma rne_le: "y \<le> of_int K \<Longrightarrow> rne y \<le> K"
proof (cases "y = of_int K")
  case True
  then show ?thesis by (simp add: rne_of_int)
next
  case False
  assume "y \<le> of_int K"
  with False have "y < of_int K" by simp
  then have "\<lfloor>y\<rfloor> < K" by (simp add: floor_less_iff)
  with rne_cases [of y] show ?thesis by auto
qed


lemma bitlen_bounds_rat:
  assumes "0 < p"
  shows "(2::rat) powi (bitlen p - 1) \<le> of_int p" and "of_int p < 2 * (2::rat) powi (bitlen p - 1)"
proof -
  from assms have b1: "1 \<le> bitlen p" by (auto simp: bitlen_alt_def)
  from bitlen_bounds [OF assms] have lo: "2 ^ nat (bitlen p - 1) \<le> p" and hi: "p < 2 ^ nat (bitlen p)"
    by auto
  have e: "(2::rat) powi (bitlen p - 1) = 2 ^ nat (bitlen p - 1)"
    using b1 by (simp add: power_int_def)
  have "(of_int (2 ^ nat (bitlen p - 1)) :: rat) \<le> of_int p"
    using lo by (simp only: of_int_le_iff)
  then show "(2::rat) powi (bitlen p - 1) \<le> of_int p" using e by simp
  have "nat (bitlen p) = Suc (nat (bitlen p - 1))" using b1 by simp
  then have "(2::int) ^ nat (bitlen p) = 2 * 2 ^ nat (bitlen p - 1)" by simp
  with hi have "p < 2 * 2 ^ nat (bitlen p - 1)" by simp
  then have "(of_int p :: rat) < of_int (2 * 2 ^ nat (bitlen p - 1))"
    by (simp only: of_int_less_iff)
  then show "of_int p < 2 * (2::rat) powi (bitlen p - 1)" using e by simp
qed

lemma ratio_bounds:
  fixes A B P Q :: rat
  assumes "0 < A" "0 < B" "A \<le> P" "P < 2 * A" "B \<le> Q" "Q < 2 * B"
  shows "A / (2 * B) < P / Q" and "P / Q < 2 * A / B"
proof -
  from assms have q: "0 < Q" and p: "0 \<le> P" by simp_all
  show "A / (2 * B) < P / Q"
    using assms(1,3) q assms(6) by (rule frac_less2)
  show "P / Q < 2 * A / B"
    using p assms(4,2,5) by (rule frac_less)
qed

lemma binade_bounds:
  assumes "x \<noteq> 0"
  shows "2 powi binade x \<le> \<bar>x\<bar>" and "\<bar>x\<bar> < 2 powi (binade x + 1)"
proof -
  obtain p q where pq: "quotient_of \<bar>x\<bar> = (p, q)" by (cases "quotient_of \<bar>x\<bar>") auto
  then have x: "\<bar>x\<bar> = of_int p / of_int q" and q: "0 < q"
    by (simp_all add: quotient_of_div quotient_of_denom_pos)
  from assms have "0 < \<bar>x\<bar>" by simp
  with x q have p: "0 < p" by (simp add: zero_less_divide_iff)
  let ?A = "(2::rat) powi (bitlen p - 1)" and ?B = "(2::rat) powi (bitlen q - 1)"
  let ?d = "bitlen p - bitlen q"
  have pos: "0 < ?A" "0 < ?B" by simp_all
  note bp = bitlen_bounds_rat [OF p] and bq = bitlen_bounds_rat [OF q]
  from ratio_bounds [OF pos bp bq] x
  have lo: "?A / (2 * ?B) < \<bar>x\<bar>" and hi: "\<bar>x\<bar> < 2 * ?A / ?B" by simp_all
  have d: "(2::rat) powi ?d = ?A / ?B"
    using power_int_diff [of "2::rat" "bitlen p - 1" "bitlen q - 1"] by simp
  have d1: "(2::rat) powi (?d - 1) = ?A / (2 * ?B)"
    using power_int_diff [of "2::rat" "?d" 1] d by simp
  have d2: "(2::rat) powi (?d + 1) = 2 * ?A / ?B"
    using power_int_add [of "2::rat" "?d" 1] d by simp
  have b: "binade x = (if 2 powi ?d \<le> \<bar>x\<bar> then ?d else ?d - 1)"
    using pq by (simp add: binade_def Let_def)
  show "2 powi binade x \<le> \<bar>x\<bar>"
    using b lo d1 by (auto simp del: power_int_diff)
  show "\<bar>x\<bar> < 2 powi (binade x + 1)"
    using b hi d2 by (auto simp del: power_int_add)
qed


lemma pow2_less_imp_less: "(2::rat) powi m < 2 powi n \<Longrightarrow> m < n"
proof (rule ccontr)
  assume a: "(2::rat) powi m < 2 powi n" and "\<not> m < n"
  then have "n \<le> m" by simp
  then have "(2::rat) powi n \<le> 2 powi m" by (rule power_int_increasing) simp
  with a show False by simp
qed

lemma round_back_error:
  fixes k m K :: int and u c :: rat
  assumes u: "0 < u" and c: "0 < c"
    and near: "\<bar>of_int m * u - of_int k / 10\<bar> \<le> u / 2"
    and K: "of_int K * (c * u) = of_int k"
  shows "\<bar>of_int m * u * 10 / (c * u) - of_int K\<bar> \<le> 5 / c"
proof -
  define d where "d = of_int m * u - of_int k / 10"
  define s where "s = 10 / (c * u)"
  have s: "0 < s" using u c by (simp add: s_def)
  have "of_int m * u * 10 / (c * u) - of_int K = d * s"
    using u c K [symmetric] by (simp add: d_def s_def field_simps)
  then have "\<bar>of_int m * u * 10 / (c * u) - of_int K\<bar> = \<bar>d\<bar> * s"
    using s by (simp add: abs_mult)
  also have "\<dots> \<le> (u / 2) * s"
    using near s unfolding d_def by (rule mult_right_mono [OF _ less_imp_le])
  also have "(u / 2) * s = 5 / c" using u c by (simp add: s_def)
  finally show ?thesis .
qed

lemma round_back_16:
  fixes k m K :: int and u :: rat
  assumes u: "0 < u"
    and near: "\<bar>of_int m * u - of_int k / 10\<bar> \<le> u / 2"
    and K: "of_int K * (16 * u) = of_int k"
  shows "rne (of_int m * u * 10 / (16 * u)) = K"
proof (rule rne_near)
  have "\<bar>of_int m * u * 10 / (16 * u) - of_int K\<bar> \<le> 5 / 16"
    using round_back_error [OF u _ near K] by simp
  then show "\<bar>of_int m * u * 10 / (16 * u) - of_int K\<bar> < 1 / 2" by simp
qed

lemma round_back_8:
  fixes k m K :: int and u :: rat
  assumes u: "0 < u"
    and near: "\<bar>of_int m * u - of_int k / 10\<bar> \<le> u / 2"
    and K: "of_int K * (8 * u) = of_int k"
    and ev: "even K"
  shows "rne (of_int m * u * 10 / (8 * u)) = K"
proof (rule rne_tie [OF ev])
  define y where "y = of_int m * u * 10 / (8 * u)"
  have b: "\<bar>y - of_int K\<bar> \<le> 5 / 8"
    unfolding y_def using round_back_error [OF u _ near K] by simp
  define D where "D = 5 * m - 4 * K"
  have "y = of_int (5 * m) / 4" using u by (simp add: y_def)
  then have d: "y - of_int K = of_int D / 4" by (simp add: D_def)
  from b have "\<bar>(of_int D :: rat) / 4\<bar> \<le> 5 / 8" by (simp only: d)
  then have "\<bar>(of_int D :: rat)\<bar> \<le> 5 / 2" by simp
  then have "(of_int \<bar>D\<bar> :: rat) < of_int 3" by simp
  then have "\<bar>D\<bar> < 3" by (simp only: of_int_less_iff)
  then have "\<bar>D\<bar> \<le> 2" by simp
  then have "(of_int \<bar>D\<bar> :: rat) \<le> of_int 2" by (simp only: of_int_le_iff)
  then have "\<bar>(of_int D :: rat) / 4\<bar> \<le> 1 / 2" by simp
  then have "\<bar>y - of_int K\<bar> \<le> 1 / 2" by (simp only: d)
  then show "\<bar>of_int m * u * 10 / (8 * u) - of_int K\<bar> \<le> 1 / 2"
    by (simp only: y_def)
qed


lemma pow2_split: "a = b + c \<Longrightarrow> (2::rat) powi a = 2 powi b * 2 powi c"
  by (simp add: power_int_add)

lemma pow2_numerals:
  "(2::rat) powi 3 = 8" "(2::rat) powi 4 = 16" "(2::rat) powi 5 = 32"
  "(2::rat) powi 52 = 2 ^ 52" "(2::rat) powi 53 = 2 ^ 53" "(2::rat) powi 49 = 2 ^ 49"
  "(2::rat) powi (- 4) = 1 / 16"
  by (simp_all add: power_int_def power_divide)

lemma pow2_neg_nat: "0 \<le> n \<Longrightarrow> (2::rat) powi (- n) * of_int (2 ^ nat n) = 1"
  by (simp add: power_int_def power_int_minus field_simps)

lemma scaled_integer:
  assumes "0 \<le> n" and "U = (2::rat) powi (- n)"
  shows "of_int (k * 2 ^ nat n) * U = of_int k"
proof -
  have one: "U * of_int (2 ^ nat n) = 1"
    using pow2_neg_nat [OF assms(1)] assms(2) by simp
  have "of_int (k * 2 ^ nat n) * U = of_int k * (U * of_int (2 ^ nat n))"
    by (simp only: of_int_mult mult_ac)
  also have "\<dots> = of_int k" by (simp only: one mult_1_right)
  finally show ?thesis .
qed


lemma nearest_double_pos:
  "0 < x \<Longrightarrow> nearest_double x = of_int (rne (x / ulp x)) * ulp x"
  by (simp add: nearest_double_def)

lemma tenth_round_trip_pos:
  fixes k :: int
  assumes kpos: "0 < k" and kub: "k < 10 * 2 ^ 49"
  shows "nearest_double (nearest_double (of_int k / 10) * 10) = of_int k"
    and "0 < nearest_double (of_int k / 10)"
    and "nearest_double (of_int k / 10) \<le> 2 ^ 49"
proof -
  define x :: rat where "x = of_int k / 10"
  from kpos have "1 \<le> k" by simp
  then have "(of_int 1 :: rat) \<le> of_int k" by (simp only: of_int_le_iff)
  then have xlo: "1 / 10 \<le> x" by (simp add: x_def)
  then have xpos: "0 < x" by simp
  from kub have "(of_int k :: rat) < of_int (10 * 2 ^ 49)" by (simp only: of_int_less_iff)
  then have xhi: "x < 2 ^ 49" by (simp add: x_def)
  define e where "e = binade x"
  from binade_bounds [of x] xpos have lo: "2 powi e \<le> x" and hi: "x < 2 powi (e + 1)"
    by (simp_all add: e_def)
  have "(2::rat) powi (- 4) < 2 powi (e + 1)"
    using xlo hi by (simp add: pow2_numerals)
  then have e_lo: "- 4 \<le> e" using pow2_less_imp_less [of "- 4" "e + 1"] by simp
  have "(2::rat) powi e < 2 powi 49"
    using lo xhi by (simp add: pow2_numerals)
  then have e_hi: "e \<le> 48" using pow2_less_imp_less [of e 49] by simp
  define u :: rat where "u = 2 powi (e - 52)"
  have upos: "0 < u" by (simp add: u_def)
  have w0: "(2::rat) powi e = 2 ^ 52 * u"
    using pow2_split [of e 52 "e - 52"] by (simp add: u_def pow2_numerals)
  have w1: "(2::rat) powi (e + 1) = 2 ^ 53 * u"
    using pow2_split [of "e + 1" 53 "e - 52"] by (simp add: u_def pow2_numerals)
  have w3: "(2::rat) powi (e + 3) = 8 * (2 ^ 52 * u)"
    using pow2_split [of "e + 3" 3 e] w0 by (simp add: pow2_numerals)
  have w5: "(2::rat) powi (e + 5) = 32 * (2 ^ 52 * u)"
    using pow2_split [of "e + 5" 5 e] w0 by (simp add: pow2_numerals)
  have ulp_x: "ulp x = u" using e_lo by (simp add: ulp_def e_def [symmetric] u_def max_def)
  define m where "m = rne (x / u)"
  have nd: "nearest_double x = of_int m * u"
    using nearest_double_pos [OF xpos] by (simp add: ulp_x m_def)
  have "of_int (2 ^ 52) \<le> x / u" using lo w0 upos by (simp add: pos_le_divide_eq)
  then have m_lo: "2 ^ 52 \<le> m" unfolding m_def by (rule rne_ge)
  have "x / u \<le> of_int (2 ^ 53)" using hi w1 upos by (simp add: pos_divide_le_eq)
  then have m_hi: "m \<le> 2 ^ 53" unfolding m_def by (rule rne_le)
  from m_lo have m_lo': "(of_int (2 ^ 52) :: rat) \<le> of_int m" by (simp only: of_int_le_iff)
  from m_hi have m_hi': "(of_int m :: rat) \<le> of_int (2 ^ 53)" by (simp only: of_int_le_iff)
  have eq: "of_int m * u - x = (of_int m - x / u) * u" using upos by (simp add: field_simps)
  have "\<bar>of_int m * u - x\<bar> = \<bar>of_int m - x / u\<bar> * \<bar>u\<bar>"
    by (simp only: eq abs_mult)
  also have "\<dots> = \<bar>of_int m - x / u\<bar> * u" using upos by simp
  also have "\<dots> \<le> (1 / 2) * u"
    using rne_error [of "x / u"] upos unfolding m_def by (intro mult_right_mono) simp_all
  finally have near: "\<bar>of_int m * u - of_int k / 10\<bar> \<le> u / 2" by (simp add: x_def)
  define t where "t = of_int m * u"
  have t_lo: "2 ^ 52 * u \<le> t" using m_lo' upos by (simp add: t_def)
  have t_hi: "t \<le> 2 ^ 53 * u" using m_hi' upos by (simp add: t_def)
  have wpos: "0 < 2 ^ 52 * u" using upos by simp
  from wpos t_lo have tpos: "0 < t" by (rule less_le_trans)
  define E where "E = binade (t * 10)"
  from binade_bounds [of "t * 10"] tpos
  have Elo: "2 powi E \<le> t * 10" and Ehi: "t * 10 < 2 powi (E + 1)"
    by (simp_all add: E_def)
  have "8 * (2 ^ 52 * u) < 10 * (2 ^ 52 * u)" using wpos by (simp only: mult_less_cancel_right_pos)
  also have "\<dots> \<le> t * 10" using t_lo by linarith
  also note Ehi
  finally have "(2::rat) powi (e + 3) < 2 powi (E + 1)" by (simp only: w3)
  then have E_lo: "e + 3 \<le> E" using pow2_less_imp_less [of "e + 3" "E + 1"] by simp
  have h1: "2 ^ 53 * u = 2 * (2 ^ 52 * u)" by simp
  note Elo
  also have "t * 10 \<le> 20 * (2 ^ 52 * u)" using t_hi unfolding h1 by linarith
  also have "\<dots> < 32 * (2 ^ 52 * u)" using wpos by (simp only: mult_less_cancel_right_pos)
  finally have "(2::rat) powi E < 2 powi (e + 5)" by (simp only: w5)
  then have E_hi: "E \<le> e + 4" using pow2_less_imp_less [of E "e + 5"] by simp
  have ulp_t: "ulp (t * 10) = 2 powi (E - 52)"
    using E_lo e_lo by (simp add: ulp_def E_def [symmetric] max_def)
  have nd10: "nearest_double (t * 10) = of_int (rne (t * 10 / 2 powi (E - 52))) * 2 powi (E - 52)"
    using nearest_double_pos [of "t * 10"] tpos by (simp add: ulp_t)
  from E_lo E_hi consider "E = e + 3" | "E = e + 4" by linarith
  then have "nearest_double (t * 10) = of_int k"
  proof cases
    case 1
    have U: "(2::rat) powi (E - 52) = 8 * u"
      using pow2_split [of "E - 52" 3 "e - 52"] 1 by (simp add: u_def pow2_numerals)
    define K where "K = k * 2 ^ nat (49 - e)"
    have "E - 52 = - (49 - e)" using 1 by simp
    with U have "8 * u = (2::rat) powi (- (49 - e))" by (simp only:)
    with e_hi have K: "of_int K * (8 * u) = of_int k"
      unfolding K_def by (intro scaled_integer) simp_all
    have "nat (49 - e) = Suc (nat (48 - e))" using e_hi by simp
    then have ev: "even K" by (simp add: K_def)
    from round_back_8 [OF upos near K ev] have "rne (t * 10 / (8 * u)) = K" by (simp only: t_def)
    with nd10 U K show ?thesis by (simp only:)
  next
    case 2
    have U: "(2::rat) powi (E - 52) = 16 * u"
      using pow2_split [of "E - 52" 4 "e - 52"] 2 by (simp add: u_def pow2_numerals)
    define K where "K = k * 2 ^ nat (48 - e)"
    have "E - 52 = - (48 - e)" using 2 by simp
    with U have "16 * u = (2::rat) powi (- (48 - e))" by (simp only:)
    with e_hi have K: "of_int K * (16 * u) = of_int k"
      unfolding K_def by (intro scaled_integer) simp_all
    from round_back_16 [OF upos near K] have "rne (t * 10 / (16 * u)) = K" by (simp only: t_def)
    with nd10 U K show ?thesis by (simp only:)
  qed
  then show "nearest_double (nearest_double (of_int k / 10) * 10) = of_int k"
    using nd by (simp add: x_def t_def)
  show "0 < nearest_double (of_int k / 10)" using nd tpos by (simp add: x_def t_def)
  have "(2::rat) powi (e + 1) \<le> 2 powi 49" using e_hi by (intro power_int_increasing) simp_all
  then show "nearest_double (of_int k / 10) \<le> 2 ^ 49"
    using nd t_hi w1 by (simp add: x_def t_def pow2_numerals)
qed


lemma binade_minus: "binade (- x) = binade x"
  by (simp add: binade_def)

lemma nearest_double_minus: "nearest_double (- x) = - nearest_double x"
proof -
  have u: "ulp (- x) = ulp x" by (simp add: ulp_def binade_minus)
  consider "x = 0" | "0 < x" | "x < 0" by linarith
  then show ?thesis
  proof cases
    case 1
    then show ?thesis by (simp add: nearest_double_def)
  next
    case 2
    then show ?thesis by (simp add: nearest_double_def u)
  next
    case 3
    then show ?thesis by (simp add: nearest_double_def u)
  qed
qed

lemma tenth_round_trip:
  fixes k :: int
  assumes "\<bar>k\<bar> < 10 * 2 ^ 49"
  shows "nearest_double (nearest_double (of_int k / 10) * 10) = of_int k"
    and "\<bar>nearest_double (of_int k / 10)\<bar> \<le> 2 ^ 49"
proof -
  consider "k = 0" | "0 < k" | "k < 0" by linarith
  then have "nearest_double (nearest_double (of_int k / 10) * 10) = of_int k
      \<and> \<bar>nearest_double (of_int k / 10)\<bar> \<le> 2 ^ 49"
  proof cases
    case 1
    then show ?thesis by (simp add: nearest_double_def)
  next
    case 2
    with assms have "k < 10 * 2 ^ 49" by simp
    from tenth_round_trip_pos [OF 2 this] show ?thesis by simp
  next
    case 3
    with assms have p: "0 < - k" "- k < 10 * 2 ^ 49" by simp_all
    have m: "(of_int k :: rat) / 10 = - (of_int (- k) / 10)" by simp
    from tenth_round_trip_pos [OF p]
    have a: "nearest_double (nearest_double (of_int (- k) / 10) * 10) = of_int (- k)"
      and b: "0 < nearest_double (of_int (- k) / 10)"
      and c: "nearest_double (of_int (- k) / 10) \<le> 2 ^ 49" by simp_all
    define t where "t = nearest_double (of_int (- k) / 10)"
    have t: "nearest_double (of_int k / 10) = - t"
      unfolding t_def by (simp only: m nearest_double_minus)
    have "nearest_double (- t * 10) = - nearest_double (t * 10)"
      using nearest_double_minus [of "t * 10"] by simp
    with a have "nearest_double (- t * 10) = of_int k" by (simp add: t_def)
    with b c t show ?thesis by (simp add: t_def)
  qed
  then show "nearest_double (nearest_double (of_int k / 10) * 10) = of_int k"
    and "\<bar>nearest_double (of_int k / 10)\<bar> \<le> 2 ^ 49" by simp_all
qed

lemma trunc_of_int: "trunc (of_int k) = k"
  by (simp add: trunc_def)

lemma not_overflows: "\<bar>y\<bar> \<le> 2 ^ 49 \<Longrightarrow> \<not> overflows y"
proof -
  assume "\<bar>y\<bar> \<le> 2 ^ 49"
  also have "(2::rat) ^ 49 < 2 ^ 1024" by (rule power_strict_increasing) simp_all
  finally show ?thesis by (simp add: overflows_def)
qed

text \<open>
  On the tenths below \<open>10 \<sqdot> 2\<^sup>4\<^sup>9\<close> in magnitude neither operation overflows, and
  \<^verbatim>\<open>int(t * 10)\<close> gives back the number of tenths.
\<close>

lemma ieee_truediv10:
  assumes "\<bar>k\<bar> < 10 * 2 ^ 49"
  shows "truediv10 ieee_double k = Some (nearest_double (of_int k / 10))"
  using not_overflows [OF tenth_round_trip(2) [OF assms]]
  by (simp add: ieee_double_def Let_def)

lemma ieee_int_times10:
  assumes "\<bar>k\<bar> < 10 * 2 ^ 49"
  shows "int_times10 ieee_double (nearest_double (of_int k / 10)) = Inr k"
proof -
  from assms have "(of_int \<bar>k\<bar> :: rat) < of_int (10 * 2 ^ 49)" by (simp only: of_int_less_iff)
  then have "\<bar>(of_int k :: rat)\<bar> < 10 * 2 ^ 49" by simp
  also have "(10 * 2 ^ 49 :: rat) \<le> 2 ^ 53" by simp
  also have "(2::rat) ^ 53 < 2 ^ 1024" by (rule power_strict_increasing) simp_all
  finally have "\<not> overflows (of_int k)" by (simp add: overflows_def)
  with tenth_round_trip(1) [OF assms] show ?thesis
    by (simp add: ieee_double_def Let_def trunc_of_int)
qed

text \<open>
  Claim C5, as amended. Temperature conversion round-trips exactly on the tenths of a
  degree below \<open>10 \<sqdot> 2\<^sup>4\<^sup>9\<close> in magnitude. For every integer \<open>k\<close> in that range, with
  \<open>t\<close> the double nearest to \<open>k / 10\<close> (the float that \<^verbatim>\<open>k / 10\<close> evaluates to, and
  \<open>k / 10\<close> itself where that is a double): \<^verbatim>\<open>set_temperature(t)\<close> sends the single
  request \<^verbatim>\<open>set_temperature [k]\<close>, \<open>k\<close> being \<^verbatim>\<open>int(t * 10)\<close>; a report whose
  \<^verbatim>\<open>st_temp_dec\<close> is \<open>k\<close> has the target temperature \<open>t\<close>, and a report whose
  \<^verbatim>\<open>temp_dec\<close> is \<open>k\<close> has the current temperature \<open>t\<close>.
\<close>

theorem temperature_round_trip:
  assumes "\<bar>k\<bar> < 10 * 2 ^ 49"
  shows "truediv10 ieee_double k = Some (nearest_double (of_int k / 10))
     \<and> requests (snd (set_temperature ieee_double dev (Some (nearest_double (of_int k / 10))))) =
         requests dev @ [(''set_temperature'', PList [PInt k])]
     \<and> (data_get st ''st_temp_dec'' = PInt k \<longrightarrow>
          target_temp ieee_double st = Inr (nearest_double (of_int k / 10)))
     \<and> (data_get st ''temp_dec'' = PInt k \<longrightarrow>
          temperature ieee_double st = Inr (nearest_double (of_int k / 10)))"
  using ieee_truediv10 [OF assms] ieee_int_times10 [OF assms]
  by (simp add: set_temperature_def target_temp_def temperature_def py_truediv10_def
      int_truediv10_def)

lemma nearest_double_examples:
  "nearest_double (221 / 10) = 3110298492652749 / 140737488355328"
  "nearest_double (1801439850948199 / 2) = 1801439850948199 / 2"
  "nearest_double (1801439850948199 / 2 * 10) = 9007199254740996"
  "nearest_double (9007199254740996 / 10) = 7205759403792797 / 8"
  by code_simp+

theorem temperature_round_trip_witness:
  "\<bar>221 :: int\<bar> < 10 * 2 ^ 49
   \<and> data_get (AirConditionStatus [(''st_temp_dec'', PInt 221), (''temp_dec'', PInt 221)])
        ''st_temp_dec'' = (PInt 221 :: rat pyval)
   \<and> data_get (AirConditionStatus [(''st_temp_dec'', PInt 221), (''temp_dec'', PInt 221)])
        ''temp_dec'' = (PInt 221 :: rat pyval)
   \<and> requests (snd (set_temperature ieee_double (AirConditionM1 accepting)
        (Some (3110298492652749 / 140737488355328)))) = [(''set_temperature'', PList [PInt 221])]
   \<and> target_temp ieee_double
        (AirConditionStatus [(''st_temp_dec'', PInt 221), (''temp_dec'', PInt 221)]) =
       Inr (3110298492652749 / 140737488355328)
   \<and> temperature ieee_double
        (AirConditionStatus [(''st_temp_dec'', PInt 221), (''temp_dec'', PInt 221)]) =
       Inr (3110298492652749 / 140737488355328)"
  using temperature_round_trip
    [of 221 "AirConditionM1 accepting"
        "AirConditionStatus [(''st_temp_dec'', PInt 221), (''temp_dec'', PInt 221)]"]
    nearest_double_examples(1)
  by (simp add: data_get_def AirConditionM1_def)

text \<open>
  Claim C5 as stated fails: \<open>t = 900719925474099.5\<close> is a double and an integer multiple
  of 0.1 (9007199254740995 tenths), yet \<^verbatim>\<open>set_temperature(t)\<close> sends 9007199254740996,
  and a report whose \<^verbatim>\<open>st_temp_dec\<close> is that number has the target temperature
  900719925474099.625, not \<open>t\<close>.
\<close>

theorem temperature_round_trip_fails_for_large_values:
  "nearest_double (1801439850948199 / 2) = 1801439850948199 / 2
   \<and> (1801439850948199 / 2 :: rat) = of_int 9007199254740995 / 10
   \<and> requests (snd (set_temperature ieee_double (AirConditionM1 accepting)
        (Some (1801439850948199 / 2)))) =
       [(''set_temperature'', PList [PInt 9007199254740996])]
   \<and> target_temp ieee_double (AirConditionStatus [(''st_temp_dec'', PInt 9007199254740996)]) =
       Inr (7205759403792797 / 8)
   \<and> (7205759403792797 / 8 :: rat) \<noteq> 1801439850948199 / 2"
  using nearest_double_examples
  by (simp add: set_temperature_def send_def AirConditionM1_def accepting_def target_temp_def
      data_get_def py_truediv10_def int_truediv10_def ieee_double_def overflows_def trunc_def
      Let_def)

end
